theory Spec2Isabelle
  imports Main "HOL-Library.Sublist"
begin

section \<open>Values shared by the SLA engine and the conversation store\<close>

text \<open>
  An instant (Go's \<^verbatim>\<open>time.Time\<close>) is the number of nanoseconds since Go's zero
  instant, January 1 of year 1, 00:00:00 UTC; the zero value \<^verbatim>\<open>time.Time{}\<close> is 0 and
  instants before it are negative. Locations and the monotonic reading play no part in
  the comparisons of the code. A duration (\<^verbatim>\<open>time.Duration\<close>) is a number of
  nanoseconds.
\<close>

type_synonym time = int

definition zero_time :: time where
  "zero_time = 0"

definition IsZero :: "time \<Rightarrow> bool" where
  "IsZero t \<longleftrightarrow> t = zero_time"

definition After :: "time \<Rightarrow> time \<Rightarrow> bool" where
  "After t u \<longleftrightarrow> u < t"

definition Add :: "time \<Rightarrow> int \<Rightarrow> time" where
  "Add t d = t + d"

definition Minute :: int where
  "Minute = 60 * 1000000000"

text \<open>
  The nullable columns (\<^verbatim>\<open>null.Time{Time, Valid}\<close>, \<^verbatim>\<open>null.Int{Int, Valid}\<close>,
  \<^verbatim>\<open>null.String{String, Valid}\<close>): the payload and the flag, as the code reads them.
\<close>

record 'a null =
  Val :: 'a
  Valid :: bool

definition null_of :: "'a \<Rightarrow> 'a null" where
  "null_of v = \<lparr>Val = v, Valid = True\<rparr>"

definition null_none :: "'a \<Rightarrow> 'a null" where
  "null_none v = \<lparr>Val = v, Valid = False\<rparr>"

subsection \<open>Errors\<close>

text \<open>
  \<open>xerr\<close> is an error value handed back by a collaborator (the database driver, a
  store, the context); the code compares two of them by identity
  (\<^verbatim>\<open>sql.ErrNoRows\<close>, \<^verbatim>\<open>businessHours.ErrBusinessHoursNotFound\<close>) and otherwise only
  passes them on. \<open>error\<close> adds the errors the code itself builds:
  \<^verbatim>\<open>fmt.Errorf\<close> without and with a wrapped cause (the text before the \<^verbatim>\<open>%w\<close>
  verb, already formatted), and \<^verbatim>\<open>envelope.NewError(type, message, nil)\<close>. A run that
  panics ends in \<open>Panic\<close>.
\<close>

datatype xerr = ErrNoRows | ErrBusinessHoursNotFound | ContextCanceled | ErrOther string

datatype etype = GeneralError | InputError

datatype error =
    External xerr
  | Errorf string
  | Wrapf string error
  | EnvelopeError etype string
  | Panic string

fun xerr_text :: "xerr \<Rightarrow> string" where
  "xerr_text ErrNoRows = ''sql: no rows in result set''"
| "xerr_text ErrBusinessHoursNotFound = ''business hours not found''"
| "xerr_text ContextCanceled = ''context canceled''"
| "xerr_text (ErrOther s) = s"

fun Error :: "error \<Rightarrow> string" where
  "Error (External x) = xerr_text x"
| "Error (Errorf s) = s"
| "Error (Wrapf s e) = s @ Error e"
| "Error (EnvelopeError t s) = s"
| "Error (Panic s) = s"

subsection \<open>Rows and collaborator values\<close>

text \<open>
  The struct declarations of the \<^verbatim>\<open>models\<close> packages are not part of the sources; each
  record holds the fields the code reads, under the names the code uses.
\<close>

record AppliedSLA =
  ID :: int
  ConversationID :: int
  FirstResponseDeadlineAt :: time
  ResolutionDeadlineAt :: time
  FirstResponseBreachedAt :: "time null"
  FirstResponseMetAt :: "time null"
  ResolutionBreachedAt :: "time null"
  ResolutionMetAt :: "time null"
  ConversationFirstResponseAt :: "time null"
  ConversationResolvedAt :: "time null"

record SLAPolicy =
  PolicyName :: string
  FirstResponseTime :: string
  ResolutionTime :: string

record Deadlines =
  FirstResponse :: time
  Resolution :: time

record Team =
  BusinessHoursID :: "int null"
  Timezone :: string

text \<open>
  A business-hours calendar: the always-open flag and, for each weekday (0 = Sunday, as
  Go's \<^verbatim>\<open>time.Weekday\<close>), the open window as nanoseconds since local midnight, if the
  day has one.
\<close>

record BusinessHours =
  IsAlwaysOpen :: bool
  Hours :: "nat \<Rightarrow> (int \<times> int) option"

text \<open>
  The app settings as \<^verbatim>\<open>json.Unmarshal\<close> sees them: either the text is not a JSON
  object (with the decoder's message), or it is an object whose members are strings or
  something else.
\<close>

datatype jvalue = JString string | JOther

datatype settings = Malformed string | Object "string \<Rightarrow> jvalue option"

record User =
  UserID :: int
  FullName :: string

record Conversation =
  ConvID :: int
  UUID :: string
  ReferenceNumber :: string
  Subject :: "string null"
  Priority :: "string null"
  AssignedUserID :: "int null"
  AssignedTeamID :: "int null"

record RuleAction =
  Type :: string
  Value :: "string list"

text \<open>
  \<^verbatim>\<open>notifier.Message\<close>, and the options handed to \<^verbatim>\<open>dbutil.BuildPaginatedQuery\<close>.
\<close>

record Message =
  UserIDs :: "int list"
  MsgSubject :: string
  Content :: string
  Provider :: string

record PaginationOptions =
  Order :: string
  OrderBy :: string
  Page :: int
  PageSize :: int

definition SLATypeFirstResponse :: string where
  "SLATypeFirstResponse = ''first_response''"

definition SLATypeResolution :: string where
  "SLATypeResolution = ''resolution''"

subsection \<open>The trace of a run\<close>

text \<open>
  Every statement sent to the database, every call of a collaborator, every log line and
  every reading of the clock is an event, appended to the history in program order. What
  a collaborator answers is given by the environment as a function of the history so far,
  so the same request can be answered differently at different moments.
\<close>

datatype level = Debug | Info | Warn | Err

datatype arg = I int | S string | T time | B bool | E error | L "string list"

text \<open>The prepared statements of the two \<^verbatim>\<open>queries\<close> structs that write.\<close>

datatype stmt =
    q_UpdateBreach int string
  | q_UpdateMet int string
  | q_SetNextSLADeadline int
  | q_UpdateSLAStatus int
  | q_ApplySLA int int time time
  | q_UpdateConversationAssignedUser string int
  | q_UpdateConversationAssignedTeam string int
  | q_UpdateConversationPriority string string
  | q_UpdateConversationStatus string string time
  | q_UpsertConversationTags string "string list"

text \<open>
  The activity entries of the \<^verbatim>\<open>Record...\<close> functions (assignee, priority, status and
  SLA changes), with what they record.
\<close>

datatype activity =
    AssigneeUserChange int
  | AssigneeTeamChange int
  | PriorityChange string
  | StatusChange string
  | SLASet string

datatype event =
    Log level string "(string \<times> arg) list"
  | TimeNow time
  | CtxDone bool
  | DBExec stmt "xerr option"
  | DBGetPendingSLAs
  | DBGetSLA int
  | DBGetConversation int string
  | DBBeginTx
  | DBSelect string "arg list"
  | DBRollback
  | TeamStoreGet int
  | AppSettingsGetByPrefix string
  | BusinessHrsStoreGet int
  | SLAStoreApplySLA int int int
  | UserStoreGet int
  | UserStoreGetSystemUser
  | StatusStoreGet int
  | PriorityStoreGet int
  | RenderTemplate string
  | NotifierSend Message "xerr option"
  | Broadcast string string arg
  | RecordActivity string activity User "xerr option"
  | PrivateNote int string string "xerr option"
  | Reply int string string "xerr option"

record env =
  time_Now :: "event list \<Rightarrow> time"
  ctx_Done :: "event list \<Rightarrow> bool"
  db_Exec :: "event list \<Rightarrow> stmt \<Rightarrow> xerr option"
  db_GetPendingSLAs :: "event list \<Rightarrow> xerr + AppliedSLA list"
  db_GetSLA :: "event list \<Rightarrow> int \<Rightarrow> xerr + SLAPolicy"
  db_GetConversation :: "event list \<Rightarrow> int \<Rightarrow> string \<Rightarrow> xerr + Conversation"
  db_BeginTx :: "event list \<Rightarrow> xerr option"
  db_Select :: "event list \<Rightarrow> string \<Rightarrow> arg list \<Rightarrow> xerr + Conversation list"
  teamStore_Get :: "event list \<Rightarrow> int \<Rightarrow> xerr + Team"
  appSettingsStore_GetByPrefix :: "event list \<Rightarrow> string \<Rightarrow> xerr + settings"
  businessHrsStore_Get :: "event list \<Rightarrow> int \<Rightarrow> xerr + BusinessHours"
  userStore_Get :: "event list \<Rightarrow> int \<Rightarrow> xerr + User"
  userStore_GetSystemUser :: "event list \<Rightarrow> xerr + User"
  statusStore_Get :: "event list \<Rightarrow> int \<Rightarrow> xerr + string"
  priorityStore_Get :: "event list \<Rightarrow> int \<Rightarrow> xerr + string"
  template_RenderNamedTemplate :: "event list \<Rightarrow> string \<Rightarrow> Conversation \<Rightarrow> User \<Rightarrow> xerr + string \<times> string"
  notifier_Send :: "event list \<Rightarrow> Message \<Rightarrow> xerr option"
  record_activity :: "event list \<Rightarrow> string \<Rightarrow> activity \<Rightarrow> User \<Rightarrow> xerr option"
  send_private_note :: "event list \<Rightarrow> int \<Rightarrow> string \<Rightarrow> string \<Rightarrow> xerr option"
  send_reply :: "event list \<Rightarrow> int \<Rightarrow> string \<Rightarrow> string \<Rightarrow> xerr option"
  sla_start_time :: "event list \<Rightarrow> int \<Rightarrow> time"
  time_ParseDuration :: "string \<Rightarrow> xerr + int"
  time_LoadLocation :: "string \<Rightarrow> xerr + int"
  fmt_Sprintf :: "string \<Rightarrow> string \<Rightarrow> string"
  i18n_Ts :: "string \<Rightarrow> string"
  q_GetConversations :: string
  dbutil_BuildPaginatedQuery ::
    "string \<Rightarrow> arg list \<Rightarrow> PaginationOptions \<Rightarrow> string \<Rightarrow> xerr + string \<times> arg list"

definition lo :: "level \<Rightarrow> string \<Rightarrow> (string \<times> arg) list \<Rightarrow> event list \<Rightarrow> event list" where
  "lo lv msg kvs tr = tr @ [Log lv msg kvs]"

definition Now :: "env \<Rightarrow> event list \<Rightarrow> time \<times> event list" where
  "Now env tr = (let t = time_Now env tr in (t, tr @ [TimeNow t]))"

definition Exec :: "env \<Rightarrow> stmt \<Rightarrow> event list \<Rightarrow> xerr option \<times> event list" where
  "Exec env s tr = (let r = db_Exec env tr s in (r, tr @ [DBExec s r]))"

text \<open>
  A call of a collaborator that reads: the answer the environment gives at this point of
  the history, and the history with the call appended.
\<close>

definition call :: "(event list \<Rightarrow> 'a) \<Rightarrow> event \<Rightarrow> event list \<Rightarrow> 'a \<times> event list" where
  "call answer ev tr = (answer tr, tr @ [ev])"

section \<open>The SLA engine: the periodic sweep\<close>

text \<open>
  Two idioms of the code. \<open>andThen\<close> is
  \<^verbatim>\<open>if err := step(); err != nil { return err }\<close> followed by the rest of the function;
  \<open>wrapped\<close> is \<^verbatim>\<open>fmt.Errorf("...: %w", err)\<close> around the error of a statement.
\<close>

definition andThen ::
  "error option \<times> event list \<Rightarrow> (event list \<Rightarrow> error option \<times> event list) \<Rightarrow> error option \<times> event list" where
  "andThen r k = (case r of (Some err, tr) \<Rightarrow> (Some err, tr) | (None, tr) \<Rightarrow> k tr)"

definition wrapped :: "string \<Rightarrow> xerr option \<times> event list \<Rightarrow> error option \<times> event list" where
  "wrapped msg r = (case r of (Some err, tr) \<Rightarrow> (Some (Wrapf msg (External err)), tr) | (None, tr) \<Rightarrow> (None, tr))"

text \<open>
  \<^verbatim>\<open>checkDeadline\<close>, the closure of \<^verbatim>\<open>evaluateSLA\<close> (it captures the row for its id).
\<close>

definition checkDeadline ::
  "env \<Rightarrow> AppliedSLA \<Rightarrow> time \<Rightarrow> time null \<Rightarrow> string \<Rightarrow> event list \<Rightarrow> error option \<times> event list" where
  "checkDeadline env sla deadline metAt slaType tr0 =
    (if IsZero deadline then
       (None, lo Debug ''deadline zero, skipping checking the deadline'' [] tr0)
     else
       (case Now env tr0 of (now, tr) \<Rightarrow>
        if \<not> Valid metAt \<and> After now deadline then
          wrapped ''updating SLA breach: ''
            (Exec env (q_UpdateBreach (ID sla) slaType)
               (lo Debug ''SLA breached as current time is after deadline''
                  [(''deadline'', T deadline), (''now'', T now), (''sla_type'', S slaType)] tr))
        else if Valid metAt then
          (if After (Val metAt) deadline then
             wrapped ''updating SLA breach: ''
               (Exec env (q_UpdateBreach (ID sla) slaType)
                  (lo Debug ''SLA breached as met_at is after deadline''
                     [(''deadline'', T deadline), (''met_at'', T (Val metAt)), (''sla_type'', S slaType)] tr))
           else
             wrapped ''updating SLA met: ''
               (Exec env (q_UpdateMet (ID sla) slaType)
                  (lo Debug ''SLA type met''
                     [(''deadline'', T deadline), (''met_at'', T (Val metAt)), (''sla_type'', S slaType)] tr)))
        else (None, tr)))"

definition evaluateSLA :: "env \<Rightarrow> AppliedSLA \<Rightarrow> event list \<Rightarrow> error option \<times> event list" where
  "evaluateSLA env sla tr0 =
    andThen
      (let tr = lo Debug ''evaluating SLA''
                  [(''conversation_id'', I (ConversationID sla)), (''applied_sla_id'', I (ID sla))] tr0 in
       if \<not> Valid (FirstResponseBreachedAt sla) \<and> \<not> Valid (FirstResponseMetAt sla) then
         checkDeadline env sla (FirstResponseDeadlineAt sla) (ConversationFirstResponseAt sla)
           SLATypeFirstResponse
           (lo Debug ''checking deadline''
              [(''deadline'', T (FirstResponseDeadlineAt sla)),
               (''met_at'', T (Val (ConversationFirstResponseAt sla))),
               (''sla_type'', S SLATypeFirstResponse)] tr)
       else (None, tr))
    (\<lambda>tr. andThen
      (if \<not> Valid (ResolutionBreachedAt sla) \<and> \<not> Valid (ResolutionMetAt sla) then
         checkDeadline env sla (ResolutionDeadlineAt sla) (ConversationResolvedAt sla)
           SLATypeResolution
           (lo Debug ''checking deadline''
              [(''deadline'', T (ResolutionDeadlineAt sla)),
               (''met_at'', T (Val (ConversationResolvedAt sla))),
               (''sla_type'', S SLATypeResolution)] tr)
       else (None, tr))
    (\<lambda>tr. andThen
      (wrapped ''setting conversation next SLA deadline: ''
         (Exec env (q_SetNextSLADeadline (ConversationID sla)) tr))
    (\<lambda>tr. wrapped ''updating applied SLA status: ''
         (Exec env (q_UpdateSLAStatus (ID sla)) tr))))"

text \<open>
  The loop of \<^verbatim>\<open>evaluatePendingSLAs\<close> over the rows it fetched: each turn polls the
  context first; a row whose evaluation fails is logged and the loop goes on.
\<close>

fun evaluate_rows :: "env \<Rightarrow> AppliedSLA list \<Rightarrow> event list \<Rightarrow> error option \<times> event list" where
  "evaluate_rows env [] tr0 = (None, tr0)"
| "evaluate_rows env (sla # rest) tr0 =
    (case call (ctx_Done env) (CtxDone (ctx_Done env tr0)) tr0 of
       (True, tr) \<Rightarrow> (Some (External ContextCanceled), tr)
     | (False, tr) \<Rightarrow>
         (case evaluateSLA env sla tr of
            (Some err, tr') \<Rightarrow>
              evaluate_rows env rest (lo Err ''error evaluating SLA'' [(''error'', E err)] tr')
          | (None, tr') \<Rightarrow> evaluate_rows env rest tr'))"

definition evaluatePendingSLAs :: "env \<Rightarrow> event list \<Rightarrow> error option \<times> event list" where
  "evaluatePendingSLAs env tr0 =
    (case call (db_GetPendingSLAs env) DBGetPendingSLAs tr0 of
       (Inl err, tr) \<Rightarrow>
         (Some (External err), lo Err ''error fetching pending SLAs'' [(''error'', E (External err))] tr)
     | (Inr pendingSLAs, tr) \<Rightarrow>
         andThen
           (evaluate_rows env pendingSLAs
              (lo Info ''evaluating pending SLAs'' [(''count'', I (int (length pendingSLAs)))] tr))
           (\<lambda>tr. (None, lo Info ''evaluated pending SLAs'' [(''count'', I (int (length pendingSLAs)))] tr)))"

text \<open>
  \<^verbatim>\<open>Run\<close>: the \<^verbatim>\<open>select\<close> serves the ticker some number of times before it
  serves \<^verbatim>\<open>ctx.Done()\<close>; the first argument is that number.
\<close>

fun Run :: "nat \<Rightarrow> env \<Rightarrow> event list \<Rightarrow> event list" where
  "Run 0 env tr0 = tr0"
| "Run (Suc n) env tr0 =
    (case evaluatePendingSLAs env tr0 of
       (Some err, tr) \<Rightarrow> Run n env (lo Err ''error processing pending SLAs'' [(''error'', E err)] tr)
     | (None, tr) \<Rightarrow> Run n env tr)"

section \<open>The SLA engine: applying a policy\<close>

text \<open>
  \<^verbatim>\<open>strconv.Atoi\<close> on a 64-bit platform: an optional sign, then decimal digits only.
  A syntax error gives 0; a number out of range gives the nearest bound, with an error
  as well.
\<close>

definition is_digit :: "char \<Rightarrow> bool" where
  "is_digit c \<longleftrightarrow> (48::nat) \<le> of_char c \<and> of_char c \<le> (57::nat)"

definition digits_value :: "string \<Rightarrow> nat" where
  "digits_value ds = foldl (\<lambda>n c. 10 * n + (of_char c - 48)) 0 ds"

definition Atoi :: "string \<Rightarrow> int \<times> bool" where
  "Atoi s =
    (let signed = (s \<noteq> [] \<and> (hd s = CHR ''+'' \<or> hd s = CHR ''-''));
         neg = (s \<noteq> [] \<and> hd s = CHR ''-'');
         ds = (if signed then tl s else s)
     in if ds = [] \<or> \<not> list_all is_digit ds then (0, False)
        else let n = int (digits_value ds) in
          if neg then (if 2 ^ 63 < n then (- (2 ^ 63), False) else (- n, True))
          else (if 2 ^ 63 \<le> n then (2 ^ 63 - 1, False) else (n, True)))"

definition as_string :: "jvalue option \<Rightarrow> string" where
  "as_string v = (case v of Some (JString s) \<Rightarrow> s | _ \<Rightarrow> '''')"

text \<open>
  \<open>bindE\<close> is \<^verbatim>\<open>v, err := step(); if err != nil { return ..., err }\<close> followed by the
  rest of the function; \<open>external\<close> hands a collaborator's error on as it is.
\<close>

definition bindE ::
  "('e + 'a) \<times> event list \<Rightarrow> ('a \<Rightarrow> event list \<Rightarrow> ('e + 'b) \<times> event list) \<Rightarrow> ('e + 'b) \<times> event list" where
  "bindE r k = (case r of (Inl err, tr) \<Rightarrow> (Inl err, tr) | (Inr v, tr) \<Rightarrow> k v tr)"

definition external :: "(xerr + 'a) \<times> event list \<Rightarrow> (error + 'a) \<times> event list" where
  "external r = (case r of (Inl err, tr) \<Rightarrow> (Inl (External err), tr) | (Inr v, tr) \<Rightarrow> (Inr v, tr))"

definition getBusinessHoursAndTimezone ::
  "env \<Rightarrow> int \<Rightarrow> event list \<Rightarrow> (error + BusinessHours \<times> string) \<times> event list" where
  "getBusinessHoursAndTimezone env assignedTeamID tr0 =
    bindE
      (if assignedTeamID \<noteq> 0 then
         bindE (external (call (\<lambda>h. teamStore_Get env h assignedTeamID) (TeamStoreGet assignedTeamID) tr0))
           (\<lambda>team tr. (Inr (Val (BusinessHoursID team), Timezone team), tr))
       else (Inr (0, ''''), tr0))
    (\<lambda>(businessHrsID, timezone) tr. bindE
      (if businessHrsID = 0 \<or> timezone = '''' then
         bindE (external (call (\<lambda>h. appSettingsStore_GetByPrefix env h ''app'') (AppSettingsGetByPrefix ''app'') tr))
           (\<lambda>settingsJ tr.
              case settingsJ of
                Malformed msg \<Rightarrow> (Inl (Errorf (''parsing settings: '' @ msg)), tr)
              | Object out \<Rightarrow>
                  (Inr (fst (Atoi (as_string (out ''app.business_hours_id''))),
                        as_string (out ''app.timezone'')), tr))
       else (Inr (businessHrsID, timezone), tr))
    (\<lambda>(businessHrsID, timezone) tr.
      if businessHrsID = 0 \<or> timezone = '''' then
        (Inl (Errorf ''business hours or timezone not configured''), tr)
      else
        (case call (\<lambda>h. businessHrsStore_Get env h businessHrsID) (BusinessHrsStoreGet businessHrsID) tr of
           (Inl err, tr) \<Rightarrow>
             if err = ErrBusinessHoursNotFound then
               (Inl (Errorf ''business hours not found''),
                lo Warn ''business hours not found'' [(''team_id'', I assignedTeamID)] tr)
             else
               (Inl (External err),
                lo Err ''error fetching business hours for SLA'' [(''error'', E (External err))] tr)
         | (Inr bh, tr) \<Rightarrow> (Inr (bh, timezone), tr))))"

text \<open>
  Modelled from the spec: \<^verbatim>\<open>CalculateDeadline\<close> (one deadline from a start instant, a
  number of minutes, a calendar and a timezone) is called by the sources but is not part
  of them. The spec, section 4.1: an always-open calendar gives start plus minutes of
  wall-clock time, with no calendar walk; otherwise the walk goes forward day by day from
  the start (converted into the timezone), counts open time only inside that weekday's
  window, and returns the instant inside the window at which the count reaches the
  minutes asked for; after 365 days without reaching it the computation fails with a
  configuration error. The timezone is resolved by the library
  (\<^verbatim>\<open>time.LoadLocation\<close>, here to a fixed offset from UTC in nanoseconds).
\<close>

definition Day :: int where
  "Day = 24 * 60 * Minute"

text \<open>Day 0 of the instants is a Monday (January 1 of year 1), and Sunday is weekday 0.\<close>

definition weekday :: "int \<Rightarrow> nat" where
  "weekday d = nat ((d + 1) mod 7)"

fun walk_days :: "nat \<Rightarrow> BusinessHours \<Rightarrow> time \<Rightarrow> int \<Rightarrow> error + time" where
  "walk_days 0 cal cursor remaining = Inl (Errorf ''no business hours window found'')"
| "walk_days (Suc fuel) cal cursor remaining =
    (let d = cursor div Day; tod = cursor mod Day in
     case Hours cal (weekday d) of
       None \<Rightarrow> walk_days fuel cal ((d + 1) * Day) remaining
     | Some (opens, closes) \<Rightarrow>
         (let from = max tod opens in
          if closes \<le> from then walk_days fuel cal ((d + 1) * Day) remaining
          else if remaining \<le> closes - from then Inr (d * Day + from + remaining)
          else walk_days fuel cal ((d + 1) * Day) (remaining - (closes - from))))"

definition CalculateDeadline ::
  "env \<Rightarrow> time \<Rightarrow> int \<Rightarrow> BusinessHours \<Rightarrow> string \<Rightarrow> error + time" where
  "CalculateDeadline env start minutes businessHrs timezone =
    (if IsAlwaysOpen businessHrs then Inr (Add start (minutes * Minute))
     else
       (case time_LoadLocation env timezone of
          Inl err \<Rightarrow> Inl (External err)
        | Inr offset \<Rightarrow>
            (case walk_days 365 businessHrs (start + offset) (minutes * Minute) of
               Inl err \<Rightarrow> Inl err
             | Inr local_deadline \<Rightarrow> Inr (local_deadline - offset))))"

text \<open>
  \<^verbatim>\<open>int(dur.Minutes())\<close>. The library computes
  \<^verbatim>\<open>float64(min) + float64(nsec)/(60*1e9)\<close> from \<^verbatim>\<open>min := d / Minute\<close> and
  \<^verbatim>\<open>nsec := d % Minute\<close>, both truncated towards zero, and the conversion to
  \<^verbatim>\<open>int\<close> drops the fraction. A float64 value is written here as a fraction of two
  integers, the second positive. The quotient and the sum are rounded to the nearest
  value with a significand of 53 bits, ties to even; the two conversions to float64 are
  exact, a duration being an int64 (\<open>min\<close> is below \<open>2^28\<close> and \<open>nsec\<close> below \<open>2^36\<close> in
  magnitude), and the sum with a zero quotient is \<open>min\<close>. The values lie between
  \<open>2^-36\<close> and \<open>2^29\<close> in magnitude, away from the subnormal numbers and from overflow.
\<close>

function bit_length :: "int \<Rightarrow> nat" where
  "bit_length n = (if n \<le> 0 then 0 else Suc (bit_length (n div 2)))"
  by auto

termination bit_length
  by (relation "measure nat") auto

declare bit_length.simps [simp del]

definition round_half_even :: "int \<Rightarrow> int \<Rightarrow> int" where
  "round_half_even n d =
    (let q = n div d; r = n mod d in
     if 2 * r < d then q else if d < 2 * r then q + 1 else if even q then q else q + 1)"

text \<open>The largest \<open>k\<close> with \<open>2^k \<le> n / d\<close>, for positive \<open>n\<close> and \<open>d\<close>.\<close>

definition floor_log2 :: "int \<Rightarrow> int \<Rightarrow> int" where
  "floor_log2 n d =
    (let k = int (bit_length n) - int (bit_length d) in
     if (if 0 \<le> k then d * 2 ^ nat k \<le> n else d \<le> n * 2 ^ nat (- k)) then k else k - 1)"

definition float64_round :: "int \<times> int \<Rightarrow> int \<times> int" where
  "float64_round x =
    (let n = fst x; d = snd x in
     if n = 0 then (0, 1)
     else
       (let e = floor_log2 \<bar>n\<bar> d - 52 in
        if e \<le> 0 then (sgn n * round_half_even (\<bar>n\<bar> * 2 ^ nat (- e)) d, 2 ^ nat (- e))
        else (sgn n * round_half_even \<bar>n\<bar> (d * 2 ^ nat e) * 2 ^ nat e, 1)))"

definition Minutes :: "int \<Rightarrow> int \<times> int" where
  "Minutes d =
    (let min = sgn d * (\<bar>d\<bar> div Minute);
         nsec = sgn d * (\<bar>d\<bar> mod Minute);
         frac = float64_round (nsec, 60 * 10 ^ 9)
     in if fst frac = 0 then (min, 1)
        else float64_round (min * snd frac + fst frac, snd frac))"

definition whole_minutes :: "int \<Rightarrow> int" where
  "whole_minutes dur = (let x = Minutes dur in sgn (fst x) * (\<bar>fst x\<bar> div snd x))"

text \<open>\<^verbatim>\<open>Get\<close> of the SLA manager: the policy with this id.\<close>

definition sla_Get :: "env \<Rightarrow> int \<Rightarrow> event list \<Rightarrow> (error + SLAPolicy) \<times> event list" where
  "sla_Get env policyID tr0 =
    (case call (\<lambda>h. db_GetSLA env h policyID) (DBGetSLA policyID) tr0 of
       (Inl err, tr) \<Rightarrow>
         (Inl (EnvelopeError GeneralError ''Error fetching SLA''),
          lo Err ''error fetching SLA'' [(''error'', E (External err))] tr)
     | (Inr sla, tr) \<Rightarrow> (Inr sla, tr))"

text \<open>The closure \<^verbatim>\<open>calculateDeadline\<close> of \<^verbatim>\<open>CalculateDeadlines\<close>.\<close>

definition calculateDeadline ::
  "env \<Rightarrow> time \<Rightarrow> BusinessHours \<Rightarrow> string \<Rightarrow> string \<Rightarrow> error + time" where
  "calculateDeadline env startTime businessHrs timezone durationStr =
    (if durationStr = '''' then Inr zero_time
     else
       (case time_ParseDuration env durationStr of
          Inl err \<Rightarrow> Inl (Errorf (''parsing SLA duration: '' @ xerr_text err))
        | Inr dur \<Rightarrow> CalculateDeadline env startTime (whole_minutes dur) businessHrs timezone))"

definition CalculateDeadlines ::
  "env \<Rightarrow> time \<Rightarrow> int \<Rightarrow> int \<Rightarrow> event list \<Rightarrow> (error + Deadlines) \<times> event list" where
  "CalculateDeadlines env startTime slaPolicyID assignedTeamID tr0 =
    bindE (getBusinessHoursAndTimezone env assignedTeamID tr0)
    (\<lambda>(businessHrs, timezone) tr. bindE
      (sla_Get env slaPolicyID
         (lo Info ''calculating deadlines''
            [(''timezone'', S timezone), (''business_hours_always_open'', B (IsAlwaysOpen businessHrs))] tr))
    (\<lambda>sla tr.
      case calculateDeadline env startTime businessHrs timezone (FirstResponseTime sla) of
        Inl err \<Rightarrow> (Inl err, tr)
      | Inr first \<Rightarrow>
          (case calculateDeadline env startTime businessHrs timezone (ResolutionTime sla) of
             Inl err \<Rightarrow> (Inl err, tr)
           | Inr resolution \<Rightarrow> (Inr \<lparr>FirstResponse = first, Resolution = resolution\<rparr>, tr))))"

text \<open>\<^verbatim>\<open>ApplySLA\<close> of the SLA manager.\<close>

definition sla_ApplySLA ::
  "env \<Rightarrow> time \<Rightarrow> int \<Rightarrow> int \<Rightarrow> int \<Rightarrow> event list \<Rightarrow> (error + SLAPolicy) \<times> event list" where
  "sla_ApplySLA env startTime conversationID assignedTeamID slaPolicyID tr0 =
    bindE (CalculateDeadlines env startTime slaPolicyID assignedTeamID tr0)
    (\<lambda>deadlines tr.
      case Exec env (q_ApplySLA conversationID slaPolicyID (FirstResponse deadlines) (Resolution deadlines)) tr of
        (Some err, tr) \<Rightarrow>
          (Inl (EnvelopeError GeneralError ''Error applying SLA''),
           lo Err ''error applying SLA'' [(''error'', E (External err))] tr)
      | (None, tr) \<Rightarrow> sla_Get env slaPolicyID tr)"

section \<open>The conversation store\<close>

text \<open>
  Modelled from the spec: the constants of the \<^verbatim>\<open>models\<close> packages are declared outside
  the sources. The spec names the status \<^verbatim>\<open>snoozed\<close>, the action \<^verbatim>\<open>assign_user\<close>,
  the actions assign team, set priority, set status, send private note, reply, set SLA
  and set tags, and the lists assigned, unassigned, team-unassigned and all; the other
  spellings follow these. The code only compares them, and a Go \<^verbatim>\<open>switch\<close> needs its
  cases distinct.
\<close>

definition StatusSnoozed :: string where
  "StatusSnoozed = ''snoozed''"

definition AssigneeTypeUser :: string where
  "AssigneeTypeUser = ''user''"

definition AssigneeTypeTeam :: string where
  "AssigneeTypeTeam = ''team''"

definition ActionAssignTeam :: string where
  "ActionAssignTeam = ''assign_team''"

definition ActionAssignUser :: string where
  "ActionAssignUser = ''assign_user''"

definition ActionSetPriority :: string where
  "ActionSetPriority = ''set_priority''"

definition ActionSetStatus :: string where
  "ActionSetStatus = ''set_status''"

definition ActionSendPrivateNote :: string where
  "ActionSendPrivateNote = ''send_private_note''"

definition ActionReply :: string where
  "ActionReply = ''reply''"

definition ActionSetSLA :: string where
  "ActionSetSLA = ''set_sla''"

definition ActionSetTags :: string where
  "ActionSetTags = ''set_tags''"

definition AssignedConversations :: string where
  "AssignedConversations = ''assigned''"

definition UnassignedConversations :: string where
  "UnassignedConversations = ''unassigned''"

definition TeamUnassignedConversations :: string where
  "TeamUnassignedConversations = ''team_unassigned''"

definition AllConversations :: string where
  "AllConversations = ''all''"

definition TmplConversationAssigned :: string where
  "TmplConversationAssigned = ''conversation-assigned''"

definition ProviderEmail :: string where
  "ProviderEmail = ''email''"

definition conversationsListMaxPageSize :: int where
  "conversationsListMaxPageSize = 100"

text \<open>
  \<open>bindO\<close> is \<open>bindE\<close> for a function that returns only an error; \<open>failing\<close> replaces
  the error of a step by the error the function returns instead.
\<close>

definition bindO ::
  "(error + 'a) \<times> event list \<Rightarrow> ('a \<Rightarrow> event list \<Rightarrow> error option \<times> event list) \<Rightarrow> error option \<times> event list" where
  "bindO r k = (case r of (Inl err, tr) \<Rightarrow> (Some err, tr) | (Inr v, tr) \<Rightarrow> k v tr)"

definition failing :: "error \<Rightarrow> error option \<times> event list \<Rightarrow> error option \<times> event list" where
  "failing e r = (case r of (Some err, tr) \<Rightarrow> (Some e, tr) | (None, tr) \<Rightarrow> (None, tr))"

text \<open>
  Modelled from the spec: \<^verbatim>\<open>BroadcastConversationUpdate\<close> and the \<^verbatim>\<open>Record...\<close>
  functions are called by the sources but are not part of them. The spec, section 4.4:
  a mutation is broadcast to the live subscribers of the conversation as a property name
  and value, and is recorded as an append-only activity entry attributed to the acting
  identity. Recording can fail; broadcasting returns nothing.
\<close>

definition BroadcastConversationUpdate :: "string \<Rightarrow> string \<Rightarrow> arg \<Rightarrow> event list \<Rightarrow> event list" where
  "BroadcastConversationUpdate uuid prop v tr = tr @ [Broadcast uuid prop v]"

definition record_entry ::
  "env \<Rightarrow> string \<Rightarrow> activity \<Rightarrow> User \<Rightarrow> event list \<Rightarrow> error option \<times> event list" where
  "record_entry env uuid a actor tr =
    (let r = record_activity env tr uuid a actor
     in (map_option External r, tr @ [RecordActivity uuid a actor r]))"

definition RecordAssigneeUserChange ::
  "env \<Rightarrow> string \<Rightarrow> int \<Rightarrow> User \<Rightarrow> event list \<Rightarrow> error option \<times> event list" where
  "RecordAssigneeUserChange env uuid assigneeID actor tr =
    record_entry env uuid (AssigneeUserChange assigneeID) actor tr"

definition RecordAssigneeTeamChange ::
  "env \<Rightarrow> string \<Rightarrow> int \<Rightarrow> User \<Rightarrow> event list \<Rightarrow> error option \<times> event list" where
  "RecordAssigneeTeamChange env uuid teamID actor tr =
    record_entry env uuid (AssigneeTeamChange teamID) actor tr"

definition RecordPriorityChange ::
  "env \<Rightarrow> string \<Rightarrow> string \<Rightarrow> User \<Rightarrow> event list \<Rightarrow> error option \<times> event list" where
  "RecordPriorityChange env priority uuid actor tr =
    record_entry env uuid (PriorityChange priority) actor tr"

definition RecordStatusChange ::
  "env \<Rightarrow> string \<Rightarrow> string \<Rightarrow> User \<Rightarrow> event list \<Rightarrow> error option \<times> event list" where
  "RecordStatusChange env status uuid actor tr =
    record_entry env uuid (StatusChange status) actor tr"

definition RecordSLASet ::
  "env \<Rightarrow> string \<Rightarrow> string \<Rightarrow> User \<Rightarrow> event list \<Rightarrow> error option \<times> event list" where
  "RecordSLASet env uuid name actor tr =
    record_entry env uuid (SLASet name) actor tr"

text \<open>
  Modelled from the spec: \<^verbatim>\<open>SendPrivateNote\<close> and \<^verbatim>\<open>SendReply\<close> are called by the
  sources but are not part of them; the spec lists them among the store's mutators. Each
  is one event, with the sender, the conversation and the text, and can fail.
\<close>

definition SendPrivateNote ::
  "env \<Rightarrow> int \<Rightarrow> string \<Rightarrow> string \<Rightarrow> event list \<Rightarrow> error option \<times> event list" where
  "SendPrivateNote env senderID uuid content tr =
    (let r = send_private_note env tr senderID uuid content
     in (map_option External r, tr @ [PrivateNote senderID uuid content r]))"

definition SendReply ::
  "env \<Rightarrow> int \<Rightarrow> string \<Rightarrow> string \<Rightarrow> event list \<Rightarrow> error option \<times> event list" where
  "SendReply env senderID uuid content tr =
    (let r = send_reply env tr senderID uuid content
     in (map_option External r, tr @ [Reply senderID uuid content r]))"

definition GetConversation ::
  "env \<Rightarrow> int \<Rightarrow> string \<Rightarrow> event list \<Rightarrow> (error + Conversation) \<times> event list" where
  "GetConversation env cid uuid tr0 =
    (case call (\<lambda>h. db_GetConversation env h cid uuid) (DBGetConversation cid uuid) tr0 of
       (Inl err, tr) \<Rightarrow>
         if err = ErrNoRows then (Inl (EnvelopeError InputError ''Conversation not found''), tr)
         else
           (Inl (EnvelopeError GeneralError ''Error fetching conversation''),
            lo Err ''error fetching conversation'' [(''error'', E (External err))] tr)
     | (Inr conversation, tr) \<Rightarrow> (Inr conversation, tr))"

definition UpdateAssignee ::
  "env \<Rightarrow> string \<Rightarrow> int \<Rightarrow> string \<Rightarrow> event list \<Rightarrow> error option \<times> event list" where
  "UpdateAssignee env uuid assigneeID assigneeType tr0 =
    (if assigneeType = AssigneeTypeUser then
       (case Exec env (q_UpdateConversationAssignedUser uuid assigneeID) tr0 of
          (Some err, tr) \<Rightarrow>
            (Some (Wrapf ''updating assignee: '' (External err)),
             lo Err ''error updating conversation assignee'' [(''error'', E (External err))] tr)
        | (None, tr) \<Rightarrow> (None, BroadcastConversationUpdate uuid ''assigned_user_id'' (I assigneeID) tr))
     else if assigneeType = AssigneeTypeTeam then
       (case Exec env (q_UpdateConversationAssignedTeam uuid assigneeID) tr0 of
          (Some err, tr) \<Rightarrow>
            (Some (Wrapf ''updating assignee: '' (External err)),
             lo Err ''error updating conversation assignee'' [(''error'', E (External err))] tr)
        | (None, tr) \<Rightarrow> (None, BroadcastConversationUpdate uuid ''assigned_team_id'' (I assigneeID) tr))
     else (Some (Errorf (''invalid assignee type: '' @ assigneeType)), tr0))"

text \<open>
  \<^verbatim>\<open>SendAssignedConversationEmail\<close>: \<^verbatim>\<open>userIDs[0]\<close> panics on an empty list.
\<close>

definition SendAssignedConversationEmail ::
  "env \<Rightarrow> int list \<Rightarrow> Conversation \<Rightarrow> event list \<Rightarrow> error option \<times> event list" where
  "SendAssignedConversationEmail env userIDs conversation tr0 =
    (case userIDs of
       [] \<Rightarrow> (Some (Panic ''index out of range [0] with length 0''), tr0)
     | first # _ \<Rightarrow>
        (case call (\<lambda>h. userStore_Get env h first) (UserStoreGet first) tr0 of
           (Inl err, tr) \<Rightarrow>
             (Some (Wrapf ''fetching agent: '' (External err)),
              lo Err ''error fetching agent'' [(''error'', E (External err))] tr)
         | (Inr agent, tr) \<Rightarrow>
            (case call (\<lambda>h. template_RenderNamedTemplate env h TmplConversationAssigned conversation agent)
                    (RenderTemplate TmplConversationAssigned) tr of
               (Inl err, tr) \<Rightarrow>
                 (Some (Wrapf ''rendering template: '' (External err)),
                  lo Err ''error rendering template''
                    [(''template'', S TmplConversationAssigned),
                     (''conversation_uuid'', S (UUID conversation)), (''error'', E (External err))] tr)
             | (Inr (content, subject), tr) \<Rightarrow>
                (let nm = \<lparr>UserIDs = userIDs, MsgSubject = subject, Content = content, Provider = ProviderEmail\<rparr>;
                     r = notifier_Send env tr nm;
                     tr = tr @ [NotifierSend nm r]
                 in case r of
                      Some err \<Rightarrow>
                        (Some (Wrapf ''sending notification message: '' (External err)),
                         lo Err ''error sending notification message'' [(''error'', E (External err))] tr)
                    | None \<Rightarrow> (None, tr)))))"

text \<open>
  \<^verbatim>\<open>UpdateConversationUserAssignee\<close>: the error of the email is logged and dropped (a
  panic is not an error value and goes on up).
\<close>

definition UpdateConversationUserAssignee ::
  "env \<Rightarrow> string \<Rightarrow> int \<Rightarrow> User \<Rightarrow> event list \<Rightarrow> error option \<times> event list" where
  "UpdateConversationUserAssignee env uuid assigneeID actor tr0 =
    andThen
      (failing (EnvelopeError GeneralError ''Error updating assignee'')
         (UpdateAssignee env uuid assigneeID AssigneeTypeUser tr0))
    (\<lambda>tr. bindO (GetConversation env 0 uuid tr)
    (\<lambda>conversation tr.
      case SendAssignedConversationEmail env [assigneeID] conversation tr of
        (Some (Panic p), tr) \<Rightarrow> (Some (Panic p), tr)
      | (Some err, tr) \<Rightarrow>
          failing (EnvelopeError GeneralError ''Error recording assignee change'')
            (RecordAssigneeUserChange env uuid assigneeID actor
               (lo Err ''error sending assigned conversation email'' [(''error'', E err)] tr))
      | (None, tr) \<Rightarrow>
          failing (EnvelopeError GeneralError ''Error recording assignee change'')
            (RecordAssigneeUserChange env uuid assigneeID actor tr)))"

definition UpdateConversationTeamAssignee ::
  "env \<Rightarrow> string \<Rightarrow> int \<Rightarrow> User \<Rightarrow> event list \<Rightarrow> error option \<times> event list" where
  "UpdateConversationTeamAssignee env uuid teamID actor tr0 =
    andThen
      (failing (EnvelopeError GeneralError ''Error updating assignee'')
         (UpdateAssignee env uuid teamID AssigneeTypeTeam tr0))
    (\<lambda>tr. failing (EnvelopeError GeneralError ''Error recording assignee change'')
         (RecordAssigneeTeamChange env uuid teamID actor tr))"

definition UpdateConversationPriority ::
  "env \<Rightarrow> string \<Rightarrow> int \<Rightarrow> string \<Rightarrow> User \<Rightarrow> event list \<Rightarrow> error option \<times> event list" where
  "UpdateConversationPriority env uuid priorityID priority0 actor tr0 =
    bindO
      (if 0 < priorityID then
         (case call (\<lambda>h. priorityStore_Get env h priorityID) (PriorityStoreGet priorityID) tr0 of
            (Inl err, tr) \<Rightarrow> (Inl (EnvelopeError InputError (xerr_text err)), tr)
          | (Inr name, tr) \<Rightarrow> (Inr name, tr))
       else (Inr priority0, tr0))
    (\<lambda>priority tr.
      case Exec env (q_UpdateConversationPriority uuid priority) tr of
        (Some err, tr) \<Rightarrow>
          (Some (EnvelopeError GeneralError ''Error updating priority''),
           lo Err ''error updating conversation priority'' [(''error'', E (External err))] tr)
      | (None, tr) \<Rightarrow>
          andThen
            (failing (EnvelopeError GeneralError ''Error recording priority change'')
               (RecordPriorityChange env priority uuid actor tr))
            (\<lambda>tr. (None, BroadcastConversationUpdate uuid ''priority'' (S priority) tr)))"

definition UpdateConversationStatus ::
  "env \<Rightarrow> string \<Rightarrow> int \<Rightarrow> string \<Rightarrow> string \<Rightarrow> User \<Rightarrow> event list \<Rightarrow> error option \<times> event list" where
  "UpdateConversationStatus env uuid statusID status0 snoozeDur actor tr0 =
    bindO
      (if 0 < statusID then
         (case call (\<lambda>h. statusStore_Get env h statusID) (StatusStoreGet statusID) tr0 of
            (Inl err, tr) \<Rightarrow> (Inl (EnvelopeError InputError (xerr_text err)), tr)
          | (Inr name, tr) \<Rightarrow> (Inr name, tr))
       else (Inr status0, tr0))
    (\<lambda>status tr.
      if status = StatusSnoozed \<and> snoozeDur = '''' then
        (Some (EnvelopeError InputError ''Snooze duration is required''), tr)
      else bindO
        (if status = StatusSnoozed then
           (case time_ParseDuration env snoozeDur of
              Inl err \<Rightarrow>
                (Inl (EnvelopeError InputError ''Invalid snooze duration format''),
                 lo Err ''error parsing snooze duration'' [(''error'', E (External err))] tr)
            | Inr duration \<Rightarrow> (case Now env tr of (now, tr) \<Rightarrow> (Inr (Add now duration), tr)))
         else (Inr zero_time, tr))
      (\<lambda>snoozeUntil tr.
        case Exec env (q_UpdateConversationStatus uuid status snoozeUntil) tr of
          (Some err, tr) \<Rightarrow>
            (Some (EnvelopeError GeneralError ''Error updating status''),
             lo Err ''error updating conversation status'' [(''error'', E (External err))] tr)
        | (None, tr) \<Rightarrow>
            andThen
              (failing (EnvelopeError GeneralError ''Error recording status change'')
                 (RecordStatusChange env status uuid actor tr))
              (\<lambda>tr. (None, BroadcastConversationUpdate uuid ''status'' (S status) tr))))"

definition UpsertConversationTags ::
  "env \<Rightarrow> string \<Rightarrow> string list \<Rightarrow> event list \<Rightarrow> error option \<times> event list" where
  "UpsertConversationTags env uuid tagNames tr0 =
    (case Exec env (q_UpsertConversationTags uuid tagNames) tr0 of
       (Some err, tr) \<Rightarrow>
         (Some (EnvelopeError GeneralError ''Error upserting tags''),
          lo Err ''error upserting conversation tags'' [(''error'', E (External err))] tr)
     | (None, tr) \<Rightarrow> (None, tr))"

text \<open>
  The conversation store reaches the SLA engine through its \<^verbatim>\<open>slaStore\<close> interface,
  \<^verbatim>\<open>ApplySLA(conversationID, assignedTeamID, slaID)\<close>, while \<^verbatim>\<open>ApplySLA\<close> of the SLA
  manager in the sources also takes the start instant first. The bridge between the two
  is not part of the sources: the start instant is the environment's choice, and the
  other three arguments are passed as they are.
\<close>

definition slaStore_ApplySLA ::
  "env \<Rightarrow> int \<Rightarrow> int \<Rightarrow> int \<Rightarrow> event list \<Rightarrow> (error + SLAPolicy) \<times> event list" where
  "slaStore_ApplySLA env conversationID assignedTeamID slaID tr =
    sla_ApplySLA env (sla_start_time env tr conversationID) conversationID assignedTeamID slaID
      (tr @ [SLAStoreApplySLA conversationID assignedTeamID slaID])"

text \<open>\<^verbatim>\<open>ApplySLA\<close> of the conversation manager.\<close>

definition conversation_ApplySLA ::
  "env \<Rightarrow> string \<Rightarrow> int \<Rightarrow> int \<Rightarrow> User \<Rightarrow> event list \<Rightarrow> error option \<times> event list" where
  "conversation_ApplySLA env conversationUUID conversationID policyID actor tr0 =
    (case slaStore_ApplySLA env conversationID 0 policyID tr0 of
       (Inl err, tr) \<Rightarrow> (Some (EnvelopeError GeneralError ''Error applying SLA''), tr)
     | (Inr policy, tr) \<Rightarrow>
         failing (EnvelopeError GeneralError ''Error recording SLA application'')
           (RecordSLASet env conversationUUID (PolicyName policy) actor tr))"

text \<open>
  \<^verbatim>\<open>fmt.Errorf("could not apply %s action: %w", action.Type, err)\<close> around the error of
  a mutator.
\<close>

definition could_not_apply :: "RuleAction \<Rightarrow> error option \<times> event list \<Rightarrow> error option \<times> event list" where
  "could_not_apply action r =
    (case r of
       (Some err, tr) \<Rightarrow> (Some (Wrapf (''could not apply '' @ Type action @ '' action: '') err), tr)
     | (None, tr) \<Rightarrow> (None, tr))"

definition ApplyAction ::
  "env \<Rightarrow> RuleAction \<Rightarrow> Conversation \<Rightarrow> User \<Rightarrow> event list \<Rightarrow> error option \<times> event list" where
  "ApplyAction env action conversation user0 tr0 =
    (if length (Value action) = 0 then
       (Some (Errorf (''no value provided for action '' @ Type action)),
        lo Warn ''no value provided for action''
          [(''action'', S (Type action)), (''conversation_uuid'', S (UUID conversation))] tr0)
     else bindO
       (if UserID user0 = 0 then
          (case call (userStore_GetSystemUser env) UserStoreGetSystemUser tr0 of
             (Inl err, tr) \<Rightarrow>
               (Inl (Wrapf (''could not apply '' @ Type action @ '' action. could not fetch system user: '')
                      (External err)), tr)
           | (Inr systemUser, tr) \<Rightarrow> (Inr systemUser, tr))
        else (Inr user0, tr0))
     (\<lambda>user tr.
       if Type action = ActionAssignTeam then
         could_not_apply action
           (UpdateConversationTeamAssignee env (UUID conversation) (fst (Atoi (Value action ! 0))) user
              (lo Debug ''executing assign team action''
                 [(''value'', S (Value action ! 0)), (''conversation_uuid'', S (UUID conversation))] tr))
       else if Type action = ActionAssignUser then
         could_not_apply action
           (UpdateConversationUserAssignee env (UUID conversation) (fst (Atoi (Value action ! 0))) user
              (lo Debug ''executing assign user action''
                 [(''value'', S (Value action ! 0)), (''conversation_uuid'', S (UUID conversation))] tr))
       else if Type action = ActionSetPriority then
         could_not_apply action
           (UpdateConversationPriority env (UUID conversation) (fst (Atoi (Value action ! 0))) '''' user
              (lo Debug ''executing set priority action''
                 [(''value'', S (Value action ! 0)), (''conversation_uuid'', S (UUID conversation))] tr))
       else if Type action = ActionSetStatus then
         could_not_apply action
           (UpdateConversationStatus env (UUID conversation) (fst (Atoi (Value action ! 0))) '''' '''' user
              (lo Debug ''executing set status action''
                 [(''value'', S (Value action ! 0)), (''conversation_uuid'', S (UUID conversation))] tr))
       else if Type action = ActionSendPrivateNote then
         could_not_apply action
           (SendPrivateNote env (UserID user) (UUID conversation) (Value action ! 0)
              (lo Debug ''executing send private note action''
                 [(''value'', S (Value action ! 0)), (''conversation_uuid'', S (UUID conversation))] tr))
       else if Type action = ActionReply then
         could_not_apply action
           (SendReply env (UserID user) (UUID conversation) (Value action ! 0)
              (lo Debug ''executing reply action''
                 [(''value'', S (Value action ! 0)), (''conversation_uuid'', S (UUID conversation))] tr))
       else if Type action = ActionSetSLA then
         could_not_apply action
           (conversation_ApplySLA env (UUID conversation) (ConvID conversation) (fst (Atoi (Value action ! 0))) user
              (lo Debug ''executing apply SLA action''
                 [(''value'', S (Value action ! 0)), (''conversation_uuid'', S (UUID conversation))] tr))
       else if Type action = ActionSetTags then
         could_not_apply action
           (UpsertConversationTags env (UUID conversation) (Value action)
              (lo Debug ''executing set tags action''
                 [(''value'', L (Value action)), (''conversation_uuid'', S (UUID conversation))] tr))
       else (Some (Errorf (''unrecognized action type '' @ Type action)), tr)))"

subsection \<open>The conversations list\<close>

text \<open>\<^verbatim>\<open>%d\<close> of a number that is not negative, and \<^verbatim>\<open>strings.Join\<close>.\<close>

fun decimal :: "nat \<Rightarrow> string" where
  "decimal n = (if n < 10 then [char_of (48 + n)] else decimal (n div 10) @ [char_of (48 + n mod 10)])"

declare decimal.simps [simp del]

fun Join :: "string list \<Rightarrow> string \<Rightarrow> string" where
  "Join [] sep = ''''"
| "Join [x] sep = x"
| "Join (x # y # ys) sep = x @ sep @ Join (y # ys) sep"

text \<open>
  The loop of \<^verbatim>\<open>makeConversationsListQuery\<close> over the list types, with the conditions
  and the query arguments gathered so far.
\<close>

fun list_conditions ::
  "int \<Rightarrow> int list \<Rightarrow> string list \<Rightarrow> string list \<Rightarrow> arg list \<Rightarrow> error + string list \<times> arg list" where
  "list_conditions userID teamIDs [] conditions qArgs = Inr (conditions, qArgs)"
| "list_conditions userID teamIDs (lt # rest) conditions qArgs =
    (if lt = AssignedConversations then
       list_conditions userID teamIDs rest
         (conditions @ [''conversations.assigned_user_id = $'' @ decimal (length qArgs + 1)])
         (qArgs @ [I userID])
     else if lt = UnassignedConversations then
       list_conditions userID teamIDs rest
         (conditions @ [''conversations.assigned_user_id IS NULL AND conversations.assigned_team_id IS NULL''])
         qArgs
     else if lt = TeamUnassignedConversations then
       list_conditions userID teamIDs rest
         (conditions @
            [''(conversations.assigned_team_id IN ('' @
               Join (map (\<lambda>i. ''$'' @ decimal (length qArgs + i + 1)) [0..<length teamIDs]) '','' @
               '') AND conversations.assigned_user_id IS NULL)''])
         (qArgs @ map I teamIDs)
     else if lt = AllConversations then
       list_conditions userID teamIDs rest conditions qArgs
     else Inl (Errorf (''unknown conversation type: '' @ lt)))"

text \<open>
  \<^verbatim>\<open>makeConversationsListQuery\<close>. The text of the base query, \<^verbatim>\<open>fmt.Sprintf\<close> on it
  and \<^verbatim>\<open>dbutil.BuildPaginatedQuery\<close> (called with the two allow-lists of filter
  fields, which are constants) are given by the environment.
\<close>

definition makeConversationsListQuery ::
  "env \<Rightarrow> int \<Rightarrow> int list \<Rightarrow> string list \<Rightarrow> string \<Rightarrow> string \<Rightarrow> string \<Rightarrow> int \<Rightarrow> int \<Rightarrow> string \<Rightarrow>
     error + string \<times> arg list" where
  "makeConversationsListQuery env userID teamIDs listTypes baseQuery0 order0 orderBy0 page pageSize filtersJSON0 =
    (let orderBy = (if orderBy0 = '''' then ''last_message_at'' else orderBy0);
         order = (if order0 = '''' then ''DESC'' else order0);
         filtersJSON = (if filtersJSON0 = '''' then ''[]'' else filtersJSON0)
     in if conversationsListMaxPageSize < pageSize \<or> pageSize < 1 then
          Inl (Errorf (''invalid page size: must be between 1 and '' @
                 decimal (nat conversationsListMaxPageSize)))
        else if page < 1 then Inl (Errorf ''page must be greater than 0'')
        else if length listTypes = 0 then Inl (Errorf ''no conversation list types specified'')
        else
          (case list_conditions userID teamIDs listTypes [] [] of
             Inl err \<Rightarrow> Inl err
           | Inr (conditions, qArgs) \<Rightarrow>
               (let baseQuery =
                      (if 0 < length conditions
                       then fmt_Sprintf env baseQuery0 (''AND ('' @ Join conditions '' OR '' @ '')'')
                       else fmt_Sprintf env baseQuery0 '''')
                in case dbutil_BuildPaginatedQuery env baseQuery qArgs
                          \<lparr>Order = order, OrderBy = orderBy, Page = page, PageSize = pageSize\<rparr>
                          filtersJSON of
                     Inl err \<Rightarrow> Inl (External err)
                   | Inr built \<Rightarrow> Inr built)))"

text \<open>
  \<^verbatim>\<open>GetConversations\<close>. \<^verbatim>\<open>defer tx.Rollback()\<close> stands before the check of the error
  of \<^verbatim>\<open>BeginTxx\<close>: when the transaction cannot be begun, \<^verbatim>\<open>tx\<close> is nil and
  evaluating the deferred call's receiver panics.
\<close>

definition GetConversations ::
  "env \<Rightarrow> int \<Rightarrow> int list \<Rightarrow> string list \<Rightarrow> string \<Rightarrow> string \<Rightarrow> string \<Rightarrow> int \<Rightarrow> int \<Rightarrow> event list \<Rightarrow>
     (error + Conversation list) \<times> event list" where
  "GetConversations env userID teamIDs listTypes order orderBy filters page pageSize tr0 =
    (case makeConversationsListQuery env userID teamIDs listTypes (q_GetConversations env)
            order orderBy page pageSize filters of
       Inl err \<Rightarrow>
         (Inl (EnvelopeError GeneralError (i18n_Ts env ''globals.messages.errorFetching'')),
          lo Err ''error making conversations query'' [(''error'', E err)] tr0)
     | Inr (query, qArgs) \<Rightarrow>
         (case call (db_BeginTx env) DBBeginTx tr0 of
            (Some err, tr) \<Rightarrow>
              (Inl (Panic ''invalid memory address or nil pointer dereference''), tr)
          | (None, tr) \<Rightarrow>
              (case call (\<lambda>h. db_Select env h query qArgs) (DBSelect query qArgs) tr of
                 (Inl err, tr) \<Rightarrow>
                   (Inl (EnvelopeError GeneralError (i18n_Ts env ''globals.messages.errorFetching'')),
                    lo Err ''error fetching conversations'' [(''error'', E (External err))] tr @ [DBRollback])
               | (Inr conversations, tr) \<Rightarrow> (Inr conversations, tr @ [DBRollback]))))"

text \<open>The four list functions in front of it.\<close>

definition GetAllConversationsList ::
  "env \<Rightarrow> string \<Rightarrow> string \<Rightarrow> string \<Rightarrow> int \<Rightarrow> int \<Rightarrow> event list \<Rightarrow> (error + Conversation list) \<times> event list" where
  "GetAllConversationsList env order orderBy filters page pageSize tr =
    GetConversations env 0 [] [AllConversations] order orderBy filters page pageSize tr"

definition GetAssignedConversationsList ::
  "env \<Rightarrow> int \<Rightarrow> string \<Rightarrow> string \<Rightarrow> string \<Rightarrow> int \<Rightarrow> int \<Rightarrow> event list \<Rightarrow> (error + Conversation list) \<times> event list" where
  "GetAssignedConversationsList env userID order orderBy filters page pageSize tr =
    GetConversations env userID [] [AssignedConversations] order orderBy filters page pageSize tr"

definition GetUnassignedConversationsList ::
  "env \<Rightarrow> string \<Rightarrow> string \<Rightarrow> string \<Rightarrow> int \<Rightarrow> int \<Rightarrow> event list \<Rightarrow> (error + Conversation list) \<times> event list" where
  "GetUnassignedConversationsList env order orderBy filters page pageSize tr =
    GetConversations env 0 [] [UnassignedConversations] order orderBy filters page pageSize tr"

definition GetTeamUnassignedConversationsList ::
  "env \<Rightarrow> int \<Rightarrow> string \<Rightarrow> string \<Rightarrow> string \<Rightarrow> int \<Rightarrow> int \<Rightarrow> event list \<Rightarrow> (error + Conversation list) \<times> event list" where
  "GetTeamUnassignedConversationsList env teamID order orderBy filters page pageSize tr =
    GetConversations env 0 [teamID] [TeamUnassignedConversations] order orderBy filters page pageSize tr"

section \<open>Vocabulary of the properties\<close>

text \<open>The events a run appended to the history it started from.\<close>

definition emitted :: "event list \<Rightarrow> event list \<Rightarrow> event list" where
  "emitted tr tr' = drop (length tr) tr'"

text \<open>
  The statements that set a terminal timestamp of one metric of one applied SLA:
  \<^verbatim>\<open>update-breach\<close> and \<^verbatim>\<open>update-met\<close> with this id and this SLA type.
\<close>

fun touches :: "int \<Rightarrow> string \<Rightarrow> event \<Rightarrow> bool" where
  "touches i ty (DBExec (q_UpdateBreach j u) r) = (j = i \<and> u = ty)"
| "touches i ty (DBExec (q_UpdateMet j u) r) = (j = i \<and> u = ty)"
| "touches i ty _ = False"




text \<open>
  Modelled from the spec: the SQL of the four statements of the sweep is not part of the
  sources. By the spec, section 4.2, marking a metric met or breached sets that metric's
  \<^verbatim>\<open>met_at\<close> or \<^verbatim>\<open>breached_at\<close> of the applied SLA with the given id; the next-deadline
  statement writes the conversation, and the status statement writes the overall status,
  which is no field of the row as the sweep reads it. A statement the database refused
  changes nothing. The timestamp written is the database's.
\<close>

fun apply_stmt :: "time \<Rightarrow> stmt \<Rightarrow> AppliedSLA \<Rightarrow> AppliedSLA" where
  "apply_stmt at (q_UpdateBreach i ty) row =
    (if i \<noteq> ID row then row
     else if ty = SLATypeFirstResponse then row\<lparr>FirstResponseBreachedAt := null_of at\<rparr>
     else if ty = SLATypeResolution then row\<lparr>ResolutionBreachedAt := null_of at\<rparr>
     else row)"
| "apply_stmt at (q_UpdateMet i ty) row =
    (if i \<noteq> ID row then row
     else if ty = SLATypeFirstResponse then row\<lparr>FirstResponseMetAt := null_of at\<rparr>
     else if ty = SLATypeResolution then row\<lparr>ResolutionMetAt := null_of at\<rparr>
     else row)"
| "apply_stmt at _ row = row"

fun apply_event :: "time \<Rightarrow> AppliedSLA \<Rightarrow> event \<Rightarrow> AppliedSLA" where
  "apply_event at row (DBExec s None) = apply_stmt at s row"
| "apply_event at row _ = row"

text \<open>
  One further run of the sweep over a stored row: the row is read again, with the
  conversation's first-reply and resolved timestamps as they are by then, it is evaluated
  in the environment and after the history of that run, and the statements the database
  accepted are applied to it.
\<close>

record sweep =
  sweep_env :: env
  sweep_history :: "event list"
  first_reply_at :: "time null"
  resolved_at :: "time null"
  db_now :: time

definition sweep_row :: "AppliedSLA \<Rightarrow> sweep \<Rightarrow> AppliedSLA" where
  "sweep_row row sw =
    (let read = row\<lparr>ConversationFirstResponseAt := first_reply_at sw,
                    ConversationResolvedAt := resolved_at sw\<rparr>
     in foldl (apply_event (db_now sw)) read
          (emitted (sweep_history sw)
             (snd (evaluateSLA (sweep_env sw) read (sweep_history sw)))))"

definition sweeps :: "sweep list \<Rightarrow> AppliedSLA \<Rightarrow> AppliedSLA" where
  "sweeps sws row = foldl sweep_row row sws"

text \<open>A metric is open while neither of its terminal timestamps is set.\<close>

definition first_open :: "AppliedSLA \<Rightarrow> bool" where
  "first_open sla \<longleftrightarrow> \<not> Valid (FirstResponseBreachedAt sla) \<and> \<not> Valid (FirstResponseMetAt sla)"

definition resolution_open :: "AppliedSLA \<Rightarrow> bool" where
  "resolution_open sla \<longleftrightarrow> \<not> Valid (ResolutionBreachedAt sla) \<and> \<not> Valid (ResolutionMetAt sla)"

text \<open>
  What a trace shows of a batch: the rows whose evaluation began (the debug line at the
  head of \<^verbatim>\<open>evaluateSLA\<close>, with the conversation id and the id of the applied SLA),
  the statements the database refused, the error lines of the loop, and the fetches of
  the pending rows.
\<close>

fun evaluated_row :: "event \<Rightarrow> (int \<times> int) list" where
  "evaluated_row (Log lv msg kvs) =
    (if lv = Debug \<and> msg = ''evaluating SLA'' then
       (case kvs of
          [(k1, I c), (k2, I i)] \<Rightarrow> [(c, i)]
        | _ \<Rightarrow> [])
     else [])"
| "evaluated_row _ = []"

definition evaluated :: "event list \<Rightarrow> (int \<times> int) list" where
  "evaluated tr = concat (map evaluated_row tr)"

fun is_refused :: "event \<Rightarrow> bool" where
  "is_refused (DBExec s (Some err)) = True"
| "is_refused _ = False"

fun is_evaluation_error :: "event \<Rightarrow> bool" where
  "is_evaluation_error (Log lv msg kvs) = (lv = Err \<and> msg = ''error evaluating SLA'')"
| "is_evaluation_error _ = False"

fun is_fetch :: "event \<Rightarrow> bool" where
  "is_fetch DBGetPendingSLAs = True"
| "is_fetch _ = False"

text \<open>
  The two-tier lookup. A configuration is a business-hours id and a timezone, and is
  usable when neither is missing (the id 0, the empty timezone). The first tier is the
  configuration of the assigned team; it is the result when a team id other than 0 is
  given and the team names both values. In every other case (no team id, or a team that
  names one of the two only, or neither) the second tier, the default of the app
  settings, is the result, with both values taken from the app settings. A store that
  fails answers with its error. \<open>settled\<close> is what the operation owes for the result of
  the lookup: the error of the lookup, the not-configured error for a configuration that
  is not usable, and the calendar with that id (or the error of its store) otherwise.
\<close>

definition configured :: "int \<times> string \<Rightarrow> bool" where
  "configured c \<longleftrightarrow> fst c \<noteq> 0 \<and> snd c \<noteq> ''''"

definition team_configuration :: "Team \<Rightarrow> int \<times> string" where
  "team_configuration team = (Val (BusinessHoursID team), Timezone team)"

definition app_default :: "(string \<Rightarrow> jvalue option) \<Rightarrow> int \<times> string" where
  "app_default out =
    (fst (Atoi (as_string (out ''app.business_hours_id''))), as_string (out ''app.timezone''))"

definition app_tier :: "env \<Rightarrow> event list \<Rightarrow> error + int \<times> string" where
  "app_tier env tr =
    (case appSettingsStore_GetByPrefix env tr ''app'' of
       Inl err \<Rightarrow> Inl (External err)
     | Inr (Malformed msg) \<Rightarrow> Inl (Errorf (''parsing settings: '' @ msg))
     | Inr (Object out) \<Rightarrow> Inr (app_default out))"

definition two_tier :: "env \<Rightarrow> int \<Rightarrow> event list \<Rightarrow> error + int \<times> string" where
  "two_tier env teamID tr =
    (if teamID \<noteq> 0 then
       (case teamStore_Get env tr teamID of
          Inl err \<Rightarrow> Inl (External err)
        | Inr team \<Rightarrow>
            if configured (team_configuration team) then Inr (team_configuration team)
            else app_tier env (tr @ [TeamStoreGet teamID]))
     else app_tier env tr)"

text \<open>
  The lookup of the words "the assigned team's configuration when a non-zero team id is
  given, otherwise the app-settings default", taken as they stand: with a team id other
  than 0 the result is the configuration of that team, whatever it names.
\<close>

definition stated_lookup :: "env \<Rightarrow> int \<Rightarrow> event list \<Rightarrow> error + int \<times> string" where
  "stated_lookup env teamID tr =
    (if teamID \<noteq> 0 then
       (case teamStore_Get env tr teamID of
          Inl err \<Rightarrow> Inl (External err)
        | Inr team \<Rightarrow> Inr (team_configuration team))
     else app_tier env tr)"

definition calendar_of :: "env \<Rightarrow> event list \<Rightarrow> int \<times> string \<Rightarrow> error + BusinessHours \<times> string" where
  "calendar_of env h c =
    (case businessHrsStore_Get env h (fst c) of
       Inl err \<Rightarrow> if err = ErrBusinessHoursNotFound then Inl (Errorf ''business hours not found'')
                  else Inl (External err)
     | Inr bh \<Rightarrow> Inr (bh, snd c))"

definition not_configured :: error where
  "not_configured = Errorf ''business hours or timezone not configured''"

definition settled :: "env \<Rightarrow> event list \<Rightarrow> error + int \<times> string \<Rightarrow> error + BusinessHours \<times> string" where
  "settled env h r =
    (case r of
       Inl err \<Rightarrow> Inl err
     | Inr c \<Rightarrow> if configured c then calendar_of env h c else Inl not_configured)"


text \<open>
  The calls of the team store, the applications handed to the SLA engine through the
  \<^verbatim>\<open>slaStore\<close> interface, and those among them with the team id 0.
\<close>

fun is_team_lookup :: "event \<Rightarrow> bool" where
  "is_team_lookup (TeamStoreGet i) = True"
| "is_team_lookup _ = False"

fun is_sla_application :: "event \<Rightarrow> bool" where
  "is_sla_application (SLAStoreApplySLA c t p) = True"
| "is_sla_application _ = False"

fun with_team_zero :: "event \<Rightarrow> bool" where
  "with_team_zero (SLAStoreApplySLA c t p) = (t = 0)"
| "with_team_zero _ = True"

definition engine_only :: "event list \<Rightarrow> bool" where
  "engine_only X \<longleftrightarrow> filter is_team_lookup X = [] \<and> filter is_sla_application X = []"

text \<open>
  What a trace shows of a run of the conversation store: its effects (the statements
  sent to the database, the broadcasts, the activity entries, the notifications sent,
  the notes and replies, the applications handed to the SLA engine), the messages of its
  error lines, the statements sent whatever the database answered, and every exchange
  with the database.
\<close>

fun is_effect :: "event \<Rightarrow> bool" where
  "is_effect (DBExec s r) = True"
| "is_effect (Broadcast u p v) = True"
| "is_effect (RecordActivity u a actor r) = True"
| "is_effect (NotifierSend m r) = True"
| "is_effect (PrivateNote i u c r) = True"
| "is_effect (Reply i u c r) = True"
| "is_effect (SLAStoreApplySLA c t p) = True"
| "is_effect _ = False"

fun error_line :: "event \<Rightarrow> string list" where
  "error_line (Log lv msg kvs) = (if lv = Err then [msg] else [])"
| "error_line _ = []"

definition error_lines :: "event list \<Rightarrow> string list" where
  "error_lines tr = concat (map error_line tr)"

fun statement_sent :: "event \<Rightarrow> stmt list" where
  "statement_sent (DBExec s r) = [s]"
| "statement_sent _ = []"

definition statements_sent :: "event list \<Rightarrow> stmt list" where
  "statements_sent tr = concat (map statement_sent tr)"

fun is_db :: "event \<Rightarrow> bool" where
  "is_db (DBExec s r) = True"
| "is_db DBGetPendingSLAs = True"
| "is_db (DBGetSLA i) = True"
| "is_db (DBGetConversation i u) = True"
| "is_db DBBeginTx = True"
| "is_db (DBSelect q a) = True"
| "is_db DBRollback = True"
| "is_db _ = False"

text \<open>The action types \<^verbatim>\<open>ApplyAction\<close> knows.\<close>

definition known_actions :: "string list" where
  "known_actions = [ActionAssignTeam, ActionAssignUser, ActionSetPriority, ActionSetStatus,
     ActionSendPrivateNote, ActionReply, ActionSetSLA, ActionSetTags]"

text \<open>
  The two errors of the checks of page size and page, the options
  \<^verbatim>\<open>makeConversationsListQuery\<close> hands to the query builder, and the rest of that
  function after the two checks: the check of the list types, the conditions, and the
  query builder.
\<close>

definition page_size_error :: error where
  "page_size_error = Errorf (''invalid page size: must be between 1 and '' @ decimal 100)"

definition page_error :: error where
  "page_error = Errorf ''page must be greater than 0''"

definition default_options :: "string \<Rightarrow> string \<Rightarrow> int \<Rightarrow> int \<Rightarrow> PaginationOptions" where
  "default_options order orderBy page pageSize =
    \<lparr>Order = (if order = '''' then ''DESC'' else order),
     OrderBy = (if orderBy = '''' then ''last_message_at'' else orderBy),
     Page = page, PageSize = pageSize\<rparr>"

definition after_page_checks ::
  "env \<Rightarrow> int \<Rightarrow> int list \<Rightarrow> string list \<Rightarrow> string \<Rightarrow> string \<Rightarrow> string \<Rightarrow> int \<Rightarrow> int \<Rightarrow> string \<Rightarrow>
     error + string \<times> arg list" where
  "after_page_checks env userID teamIDs listTypes base order orderBy page pageSize filters =
    (if listTypes = [] then Inl (Errorf ''no conversation list types specified'')
     else
       (case list_conditions userID teamIDs listTypes [] [] of
          Inl err \<Rightarrow> Inl err
        | Inr (conditions, qArgs) \<Rightarrow>
            (case dbutil_BuildPaginatedQuery env
                    (if conditions \<noteq> []
                     then fmt_Sprintf env base (''AND ('' @ Join conditions '' OR '' @ '')'')
                     else fmt_Sprintf env base '''')
                    qArgs (default_options order orderBy page pageSize)
                    (if filters = '''' then ''[]'' else filters) of
               Inl err \<Rightarrow> Inl (External err)
             | Inr built \<Rightarrow> Inr built)))"

section \<open>An example environment\<close>

text \<open>
  An environment in which every collaborator answers and the database accepts every
  statement: the clock reads 1000, the app settings name calendar 1 and the timezone
  UTC, every team names calendar 2 and Europe/Paris, calendar 1 is always open, and
  \<^verbatim>\<open>time.ParseDuration\<close> knows "2h" and "1h30m".
\<close>

definition example_settings :: "string \<Rightarrow> jvalue option" where
  "example_settings k =
    (if k = ''app.business_hours_id'' then Some (JString ''1'')
     else if k = ''app.timezone'' then Some (JString ''UTC'')
     else None)"

definition example_calendar :: "int \<Rightarrow> BusinessHours" where
  "example_calendar i =
    \<lparr>IsAlwaysOpen = (i = 1),
     Hours = (\<lambda>d. if 1 \<le> d \<and> d \<le> 5 then Some (9 * 60 * Minute, 17 * 60 * Minute) else None)\<rparr>"

definition example_conversation :: "string \<Rightarrow> Conversation" where
  "example_conversation u =
    \<lparr>ConvID = 5, UUID = u, ReferenceNumber = ''100'', Subject = null_of ''Hello'',
     Priority = null_none '''', AssignedUserID = null_none 0, AssignedTeamID = null_of 3\<rparr>"

definition example_env :: env where
  "example_env =
    \<lparr>time_Now = (\<lambda>h. 1000),
     ctx_Done = (\<lambda>h. False),
     db_Exec = (\<lambda>h s. None),
     db_GetPendingSLAs = (\<lambda>h. Inr []),
     db_GetSLA = (\<lambda>h i. Inr \<lparr>PolicyName = ''gold'', FirstResponseTime = ''1h30m'', ResolutionTime = ''''\<rparr>),
     db_GetConversation = (\<lambda>h i u. Inr (example_conversation u)),
     db_BeginTx = (\<lambda>h. None),
     db_Select = (\<lambda>h q a. Inr []),
     teamStore_Get = (\<lambda>h i. Inr \<lparr>BusinessHoursID = null_of 2, Timezone = ''Europe/Paris''\<rparr>),
     appSettingsStore_GetByPrefix = (\<lambda>h p. Inr (Object example_settings)),
     businessHrsStore_Get = (\<lambda>h i. Inr (example_calendar i)),
     userStore_Get = (\<lambda>h i. Inr \<lparr>UserID = i, FullName = ''Agent''\<rparr>),
     userStore_GetSystemUser = (\<lambda>h. Inr \<lparr>UserID = 1, FullName = ''System''\<rparr>),
     statusStore_Get = (\<lambda>h i. Inr (if i = 2 then ''snoozed'' else ''open'')),
     priorityStore_Get = (\<lambda>h i. Inr ''high''),
     template_RenderNamedTemplate = (\<lambda>h n c u. Inr (''You have been assigned'', ''Assigned'')),
     notifier_Send = (\<lambda>h m. Some (ErrOther ''smtp: connection refused'')),
     record_activity = (\<lambda>h u a actor. None),
     send_private_note = (\<lambda>h i u c. None),
     send_reply = (\<lambda>h i u c. None),
     sla_start_time = (\<lambda>h i. 500),
     time_ParseDuration =
       (\<lambda>d. if d = ''2h'' then Inr (120 * Minute)
            else if d = ''1h30m'' then Inr (90 * Minute)
            else Inl (ErrOther ''time: invalid duration'')),
     time_LoadLocation = (\<lambda>z. if z = ''UTC'' then Inr 0 else Inl (ErrOther ''unknown time zone'')),
     fmt_Sprintf = (\<lambda>f a. f @ a),
     i18n_Ts = (\<lambda>k. k),
     q_GetConversations = ''SELECT * FROM conversations WHERE 1=1 '',
     dbutil_BuildPaginatedQuery = (\<lambda>q a opts f. Inr (q, a))\<rparr>"

text \<open>
  A row whose first-response metric was marked breached at 150 (deadline 100) and whose
  conversation shows a first reply at 90; the resolution metric is open.
\<close>

definition breached_row :: AppliedSLA where
  "breached_row =
    \<lparr>ID = 7, ConversationID = 5,
     FirstResponseDeadlineAt = 100, ResolutionDeadlineAt = 5000,
     FirstResponseBreachedAt = null_of 150, FirstResponseMetAt = null_none 0,
     ResolutionBreachedAt = null_none 0, ResolutionMetAt = null_none 0,
     ConversationFirstResponseAt = null_of 90, ConversationResolvedAt = null_none 0\<rparr>"

text \<open>
  A row with both metrics open: a first reply at 90 before the deadline 100, and no
  resolution by the deadline 900.
\<close>

definition open_row :: AppliedSLA where
  "open_row =
    \<lparr>ID = 8, ConversationID = 6,
     FirstResponseDeadlineAt = 100, ResolutionDeadlineAt = 900,
     FirstResponseBreachedAt = null_none 0, FirstResponseMetAt = null_none 0,
     ResolutionBreachedAt = null_none 0, ResolutionMetAt = null_none 0,
     ConversationFirstResponseAt = null_of 90, ConversationResolvedAt = null_none 0\<rparr>"

text \<open>
  A further run of the sweep in the example environment, at a moment when the
  conversation shows the first reply at 90 and no resolution.
\<close>

definition example_sweep :: sweep where
  "example_sweep =
    \<lparr>sweep_env = example_env, sweep_history = [],
     first_reply_at = null_of 90, resolved_at = null_none 0, db_now = 2000\<rparr>"

text \<open>
  The example environment with two pending rows, in which the database refuses the
  statement that marks the first response of row 8 met.
\<close>

definition faulty_env :: env where
  "faulty_env = example_env
    \<lparr>db_GetPendingSLAs := (\<lambda>h. Inr [open_row, breached_row]),
     db_Exec := (\<lambda>h s. if s = q_UpdateMet 8 SLATypeFirstResponse
                          then Some (ErrOther ''deadlock detected'') else None)\<rparr>"

text \<open>
  The example environment with app settings that name no timezone, and teams that name
  none either.
\<close>

definition unconfigured_env :: env where
  "unconfigured_env = example_env
    \<lparr>appSettingsStore_GetByPrefix :=
       (\<lambda>h p. Inr (Object (\<lambda>k. if k = ''app.business_hours_id'' then Some (JString ''1'') else None))),
     teamStore_Get := (\<lambda>h i. Inr \<lparr>BusinessHoursID = null_of 2, Timezone = ''''\<rparr>)\<rparr>"

text \<open>
  The example environment with teams that name calendar 2 and no timezone; the app
  settings name calendar 1 and UTC.
\<close>

definition half_env :: env where
  "half_env = example_env
    \<lparr>teamStore_Get := (\<lambda>h i. Inr \<lparr>BusinessHoursID = null_of 2, Timezone = ''''\<rparr>)\<rparr>"

text \<open>
  The example environment with teams that name calendar 2 and no timezone, and app
  settings that name the timezone UTC and no calendar.
\<close>

definition split_env :: env where
  "split_env = example_env
    \<lparr>appSettingsStore_GetByPrefix :=
       (\<lambda>h p. Inr (Object (\<lambda>k. if k = ''app.timezone'' then Some (JString ''UTC'') else None))),
     teamStore_Get := (\<lambda>h i. Inr \<lparr>BusinessHoursID = null_of 2, Timezone = ''''\<rparr>)\<rparr>"

text \<open>
  The example environment with a library that also knows Europe/Paris, one hour ahead of
  UTC.
\<close>

definition paris_env :: env where
  "paris_env = example_env
    \<lparr>time_LoadLocation :=
       (\<lambda>z. if z = ''Europe/Paris'' then Inr (60 * Minute) else time_LoadLocation example_env z)\<rparr>"

text \<open>
  Actions and actors of the examples: no actor is the zero identity; one action has no
  value, one has a type the executor does not know.
\<close>

definition set_sla_action :: RuleAction where
  "set_sla_action = \<lparr>Type = ActionSetSLA, Value = [''9'']\<rparr>"

definition agent_ann :: User where
  "agent_ann = \<lparr>UserID = 4, FullName = ''Ann''\<rparr>"

definition assign_user_42 :: RuleAction where
  "assign_user_42 = \<lparr>Type = ActionAssignUser, Value = [''42'']\<rparr>"

definition no_actor :: User where
  "no_actor = \<lparr>UserID = 0, FullName = ''''\<rparr>"

definition empty_action :: RuleAction where
  "empty_action = \<lparr>Type = ActionSetTags, Value = []\<rparr>"

definition unknown_action :: RuleAction where
  "unknown_action = \<lparr>Type = ''escalate'', Value = [''now'']\<rparr>"

section \<open>The sweep decides open metrics and leaves terminal ones alone\<close>

lemma emitted_append [simp]: "emitted tr (tr @ xs) = xs"
  by (simp add: emitted_def)

lemma emitted_self [simp]: "emitted tr tr = []"
  by (simp add: emitted_def)


lemma types_differ: "SLATypeFirstResponse \<noteq> SLATypeResolution"
  by (simp add: SLATypeFirstResponse_def SLATypeResolution_def)





lemma checkDeadline_other:
  assumes "ty' \<noteq> ty"
  shows "\<exists>X. snd (checkDeadline env sla dl act ty tr) = tr @ X \<and> filter (touches i ty') X = []"
  using assms
  by (auto simp: checkDeadline_def lo_def Now_def Exec_def wrapped_def Let_def split: option.splits)

lemma evaluateSLA_first_terminal:
  assumes "\<not> first_open sla"
  shows "\<exists>X. snd (evaluateSLA env sla tr) = tr @ X \<and> filter (touches i SLATypeFirstResponse) X = []"
proof -
  let ?a = "Log Debug ''evaluating SLA''
              [(''conversation_id'', I (ConversationID sla)), (''applied_sla_id'', I (ID sla))]"
  let ?c = "Log Debug ''checking deadline''
              [(''deadline'', T (ResolutionDeadlineAt sla)),
               (''met_at'', T (Val (ConversationResolvedAt sla))),
               (''sla_type'', S SLATypeResolution)]"
  obtain B where B: "snd (checkDeadline env sla (ResolutionDeadlineAt sla) (ConversationResolvedAt sla)
        SLATypeResolution (tr @ [?a, ?c])) = (tr @ [?a, ?c]) @ B"
      "filter (touches i SLATypeFirstResponse) B = []"
    using checkDeadline_other [of SLATypeFirstResponse SLATypeResolution] types_differ by blast
  obtain r where r: "checkDeadline env sla (ResolutionDeadlineAt sla) (ConversationResolvedAt sla)
        SLATypeResolution (tr @ [?a, ?c]) = (r, tr @ [?a, ?c] @ B)"
    using B(1) by (cases "checkDeadline env sla (ResolutionDeadlineAt sla) (ConversationResolvedAt sla)
        SLATypeResolution (tr @ [?a, ?c])") simp
  show ?thesis
    using assms r B(2)
    by (cases "resolution_open sla"; cases r)
       (auto simp: evaluateSLA_def andThen_def wrapped_def Exec_def lo_def Let_def
          first_open_def resolution_open_def split: option.splits)
qed

lemma evaluateSLA_resolution_terminal:
  assumes "\<not> resolution_open sla"
  shows "\<exists>X. snd (evaluateSLA env sla tr) = tr @ X \<and> filter (touches i SLATypeResolution) X = []"
proof -
  let ?a = "Log Debug ''evaluating SLA''
              [(''conversation_id'', I (ConversationID sla)), (''applied_sla_id'', I (ID sla))]"
  let ?b = "Log Debug ''checking deadline''
              [(''deadline'', T (FirstResponseDeadlineAt sla)),
               (''met_at'', T (Val (ConversationFirstResponseAt sla))),
               (''sla_type'', S SLATypeFirstResponse)]"
  obtain A where A: "snd (checkDeadline env sla (FirstResponseDeadlineAt sla) (ConversationFirstResponseAt sla)
        SLATypeFirstResponse (tr @ [?a, ?b])) = (tr @ [?a, ?b]) @ A"
      "filter (touches i SLATypeResolution) A = []"
    using checkDeadline_other [of SLATypeResolution SLATypeFirstResponse] types_differ by metis
  obtain r where r: "checkDeadline env sla (FirstResponseDeadlineAt sla) (ConversationFirstResponseAt sla)
        SLATypeFirstResponse (tr @ [?a, ?b]) = (r, tr @ [?a, ?b] @ A)"
    using A(1) by (cases "checkDeadline env sla (FirstResponseDeadlineAt sla) (ConversationFirstResponseAt sla)
        SLATypeFirstResponse (tr @ [?a, ?b])") simp
  show ?thesis
    using assms r A(2)
    by (cases "first_open sla"; cases r)
       (auto simp: evaluateSLA_def andThen_def wrapped_def Exec_def lo_def Let_def
          first_open_def resolution_open_def split: option.splits)
qed

lemma apply_event_first:
  assumes "\<not> touches (ID row) SLATypeFirstResponse e"
  shows "FirstResponseMetAt (apply_event at row e) = FirstResponseMetAt row
       \<and> FirstResponseBreachedAt (apply_event at row e) = FirstResponseBreachedAt row
       \<and> ID (apply_event at row e) = ID row"
proof (cases e)
  case (DBExec s r)
  then show ?thesis using assms by (cases s; cases r) auto
qed simp_all

lemma apply_event_resolution:
  assumes "\<not> touches (ID row) SLATypeResolution e"
  shows "ResolutionMetAt (apply_event at row e) = ResolutionMetAt row
       \<and> ResolutionBreachedAt (apply_event at row e) = ResolutionBreachedAt row
       \<and> ID (apply_event at row e) = ID row"
proof (cases e)
  case (DBExec s r)
  then show ?thesis using assms by (cases s; cases r) auto
qed simp_all

lemma foldl_first:
  assumes "filter (touches (ID row) SLATypeFirstResponse) X = []"
  shows "FirstResponseMetAt (foldl (apply_event at) row X) = FirstResponseMetAt row
       \<and> FirstResponseBreachedAt (foldl (apply_event at) row X) = FirstResponseBreachedAt row
       \<and> ID (foldl (apply_event at) row X) = ID row"
  using assms
proof (induction X arbitrary: row)
  case Nil
  then show ?case by simp
next
  case (Cons e X)
  from Cons.prems have e: "\<not> touches (ID row) SLATypeFirstResponse e"
    and X: "filter (touches (ID row) SLATypeFirstResponse) X = []"
    by (auto split: if_splits)
  from apply_event_first [OF e, of at] X Cons.IH [of "apply_event at row e"]
  show ?case by simp
qed

lemma foldl_resolution:
  assumes "filter (touches (ID row) SLATypeResolution) X = []"
  shows "ResolutionMetAt (foldl (apply_event at) row X) = ResolutionMetAt row
       \<and> ResolutionBreachedAt (foldl (apply_event at) row X) = ResolutionBreachedAt row
       \<and> ID (foldl (apply_event at) row X) = ID row"
  using assms
proof (induction X arbitrary: row)
  case Nil
  then show ?case by simp
next
  case (Cons e X)
  from Cons.prems have e: "\<not> touches (ID row) SLATypeResolution e"
    and X: "filter (touches (ID row) SLATypeResolution) X = []"
    by (auto split: if_splits)
  from apply_event_resolution [OF e, of at] X Cons.IH [of "apply_event at row e"]
  show ?case by simp
qed

lemma sweep_row_first:
  assumes "\<not> first_open row"
  shows "FirstResponseMetAt (sweep_row row sw) = FirstResponseMetAt row
       \<and> FirstResponseBreachedAt (sweep_row row sw) = FirstResponseBreachedAt row"
proof -
  let ?read = "row\<lparr>ConversationFirstResponseAt := first_reply_at sw,
                    ConversationResolvedAt := resolved_at sw\<rparr>"
  have "\<not> first_open ?read" using assms by (simp add: first_open_def)
  then obtain X where X: "snd (evaluateSLA (sweep_env sw) ?read (sweep_history sw)) = sweep_history sw @ X"
      "filter (touches (ID ?read) SLATypeFirstResponse) X = []"
    using evaluateSLA_first_terminal by blast
  from foldl_first [OF X(2), of "db_now sw"] X(1) show ?thesis
    by (simp add: sweep_row_def)
qed

lemma sweep_row_resolution:
  assumes "\<not> resolution_open row"
  shows "ResolutionMetAt (sweep_row row sw) = ResolutionMetAt row
       \<and> ResolutionBreachedAt (sweep_row row sw) = ResolutionBreachedAt row"
proof -
  let ?read = "row\<lparr>ConversationFirstResponseAt := first_reply_at sw,
                    ConversationResolvedAt := resolved_at sw\<rparr>"
  have "\<not> resolution_open ?read" using assms by (simp add: resolution_open_def)
  then obtain X where X: "snd (evaluateSLA (sweep_env sw) ?read (sweep_history sw)) = sweep_history sw @ X"
      "filter (touches (ID ?read) SLATypeResolution) X = []"
    using evaluateSLA_resolution_terminal by blast
  from foldl_resolution [OF X(2), of "db_now sw"] X(1) show ?thesis
    by (simp add: sweep_row_def)
qed

lemma sweeps_first:
  assumes "\<not> first_open row"
  shows "FirstResponseMetAt (sweeps sws row) = FirstResponseMetAt row
       \<and> FirstResponseBreachedAt (sweeps sws row) = FirstResponseBreachedAt row"
  using assms unfolding sweeps_def
proof (induction sws arbitrary: row)
  case Nil
  then show ?case by simp
next
  case (Cons sw sws)
  have same: "FirstResponseMetAt (sweep_row row sw) = FirstResponseMetAt row
       \<and> FirstResponseBreachedAt (sweep_row row sw) = FirstResponseBreachedAt row"
    by (rule sweep_row_first [OF Cons.prems])
  then have "\<not> first_open (sweep_row row sw)"
    using Cons.prems by (simp add: first_open_def)
  from Cons.IH [OF this] same show ?case by simp
qed

lemma sweeps_resolution:
  assumes "\<not> resolution_open row"
  shows "ResolutionMetAt (sweeps sws row) = ResolutionMetAt row
       \<and> ResolutionBreachedAt (sweeps sws row) = ResolutionBreachedAt row"
  using assms unfolding sweeps_def
proof (induction sws arbitrary: row)
  case Nil
  then show ?case by simp
next
  case (Cons sw sws)
  have same: "ResolutionMetAt (sweep_row row sw) = ResolutionMetAt row
       \<and> ResolutionBreachedAt (sweep_row row sw) = ResolutionBreachedAt row"
    by (rule sweep_row_resolution [OF Cons.prems])
  then have "\<not> resolution_open (sweep_row row sw)"
    using Cons.prems by (simp add: resolution_open_def)
  from Cons.IH [OF this] same show ?case by simp
qed

text \<open>
  C2. For a metric that already has a terminal timestamp (met or breached), an evaluation
  of the row sends no statement for that metric, in any environment and after any
  history; and after any number of further runs of the sweep over the row, whatever the
  database accepts or refuses in them, both terminal timestamps of the metric are what
  they were.
\<close>

theorem C2_terminal_metric_unchanged:
  "(\<not> first_open row \<longrightarrow>
      filter (touches (ID row) SLATypeFirstResponse) (emitted tr (snd (evaluateSLA env row tr))) = []
      \<and> FirstResponseMetAt (sweeps sws row) = FirstResponseMetAt row
      \<and> FirstResponseBreachedAt (sweeps sws row) = FirstResponseBreachedAt row)
   \<and> (\<not> resolution_open row \<longrightarrow>
      filter (touches (ID row) SLATypeResolution) (emitted tr (snd (evaluateSLA env row tr))) = []
      \<and> ResolutionMetAt (sweeps sws row) = ResolutionMetAt row
      \<and> ResolutionBreachedAt (sweeps sws row) = ResolutionBreachedAt row)"
proof (intro conjI impI)
  assume t: "\<not> first_open row"
  obtain X where "snd (evaluateSLA env row tr) = tr @ X"
      "filter (touches (ID row) SLATypeFirstResponse) X = []"
    using evaluateSLA_first_terminal [OF t] by blast
  then show "filter (touches (ID row) SLATypeFirstResponse) (emitted tr (snd (evaluateSLA env row tr))) = []"
    by simp
  from sweeps_first [OF t] show "FirstResponseMetAt (sweeps sws row) = FirstResponseMetAt row"
    and "FirstResponseBreachedAt (sweeps sws row) = FirstResponseBreachedAt row" by simp_all
next
  assume t: "\<not> resolution_open row"
  obtain X where "snd (evaluateSLA env row tr) = tr @ X"
      "filter (touches (ID row) SLATypeResolution) X = []"
    using evaluateSLA_resolution_terminal [OF t] by blast
  then show "filter (touches (ID row) SLATypeResolution) (emitted tr (snd (evaluateSLA env row tr))) = []"
    by simp
  from sweeps_resolution [OF t] show "ResolutionMetAt (sweeps sws row) = ResolutionMetAt row"
    and "ResolutionBreachedAt (sweeps sws row) = ResolutionBreachedAt row" by simp_all
qed

text \<open>
  C2 on \<open>breached_row\<close>, whose first-response metric was marked breached at 150: three
  further runs leave it so.
\<close>

theorem C2_witness:
  "\<not> first_open breached_row
   \<and> filter (touches 7 SLATypeFirstResponse) (emitted [] (snd (evaluateSLA example_env breached_row []))) = []
   \<and> FirstResponseBreachedAt (sweeps [example_sweep, example_sweep, example_sweep] breached_row) = null_of 150
   \<and> Valid (FirstResponseMetAt (sweeps [example_sweep, example_sweep, example_sweep] breached_row)) = False"
proof -
  have t: "\<not> first_open breached_row"
    by (simp add: first_open_def breached_row_def null_of_def)
  show ?thesis
    using C2_terminal_metric_unchanged [of breached_row "[]" example_env
        "[example_sweep, example_sweep, example_sweep]"] t
    by (simp add: breached_row_def null_none_def)
qed

section \<open>A failing row does not stop the batch\<close>

lemma evaluated_append [simp]: "evaluated (xs @ ys) = evaluated xs @ evaluated ys"
  by (simp add: evaluated_def)

lemma evaluated_Nil [simp]: "evaluated [] = []"
  by (simp add: evaluated_def)

lemma evaluated_Cons [simp]: "evaluated (e # xs) = evaluated_row e @ evaluated xs"
  by (simp add: evaluated_def)

lemma checkDeadline_batch:
  "\<exists>X. snd (checkDeadline env sla dl act ty tr) = tr @ X \<and> evaluated X = [] \<and>
     filter is_evaluation_error X = [] \<and> filter is_fetch X = [] \<and>
     length (filter is_refused X) = (if fst (checkDeadline env sla dl act ty tr) = None then 0 else 1)"
  by (auto simp: checkDeadline_def lo_def Now_def Exec_def wrapped_def Let_def
      split: option.splits)

lemma evaluateSLA_batch:
  "\<exists>X. snd (evaluateSLA env sla tr) = tr @ X \<and> evaluated X = [(ConversationID sla, ID sla)] \<and>
     filter is_evaluation_error X = [] \<and> filter is_fetch X = [] \<and>
     length (filter is_refused X) = (if fst (evaluateSLA env sla tr) = None then 0 else 1)"
proof -
  let ?a = "Log Debug ''evaluating SLA''
              [(''conversation_id'', I (ConversationID sla)), (''applied_sla_id'', I (ID sla))]"
  let ?b = "Log Debug ''checking deadline''
              [(''deadline'', T (FirstResponseDeadlineAt sla)),
               (''met_at'', T (Val (ConversationFirstResponseAt sla))),
               (''sla_type'', S SLATypeFirstResponse)]"
  let ?c = "Log Debug ''checking deadline''
              [(''deadline'', T (ResolutionDeadlineAt sla)),
               (''met_at'', T (Val (ConversationResolvedAt sla))),
               (''sla_type'', S SLATypeResolution)]"
  let ?first = "checkDeadline env sla (FirstResponseDeadlineAt sla) (ConversationFirstResponseAt sla)
        SLATypeFirstResponse (tr @ [?a, ?b])"
  obtain A where A: "snd ?first = (tr @ [?a, ?b]) @ A" "evaluated A = []"
      "filter is_evaluation_error A = []" "filter is_fetch A = []"
      "length (filter is_refused A) = (if fst ?first = None then 0 else 1)"
    using checkDeadline_batch by blast
  define X1 where "X1 = (if first_open sla then [?a, ?b] @ A else [?a])"
  define r1 where "r1 = (if first_open sla then fst ?first else None)"
  have step1: "(let tr1 = lo Debug ''evaluating SLA''
                  [(''conversation_id'', I (ConversationID sla)), (''applied_sla_id'', I (ID sla))] tr in
       if \<not> Valid (FirstResponseBreachedAt sla) \<and> \<not> Valid (FirstResponseMetAt sla) then
         checkDeadline env sla (FirstResponseDeadlineAt sla) (ConversationFirstResponseAt sla)
           SLATypeFirstResponse
           (lo Debug ''checking deadline''
              [(''deadline'', T (FirstResponseDeadlineAt sla)),
               (''met_at'', T (Val (ConversationFirstResponseAt sla))),
               (''sla_type'', S SLATypeFirstResponse)] tr1)
       else (None, tr1)) = (r1, tr @ X1)"
    using A(1) by (cases ?first) (auto simp: lo_def Let_def X1_def r1_def first_open_def)
  have X1: "evaluated X1 = [(ConversationID sla, ID sla)]" "filter is_evaluation_error X1 = []"
      "filter is_fetch X1 = []" "length (filter is_refused X1) = (if r1 = None then 0 else 1)"
    using A(2-5) by (auto simp: X1_def r1_def)
  let ?second = "checkDeadline env sla (ResolutionDeadlineAt sla) (ConversationResolvedAt sla)
        SLATypeResolution (tr @ X1 @ [?c])"
  obtain B where B: "snd ?second = (tr @ X1 @ [?c]) @ B" "evaluated B = []"
      "filter is_evaluation_error B = []" "filter is_fetch B = []"
      "length (filter is_refused B) = (if fst ?second = None then 0 else 1)"
    using checkDeadline_batch by blast
  define X2 where "X2 = (if resolution_open sla then [?c] @ B else [])"
  define r2 where "r2 = (if resolution_open sla then fst ?second else None)"
  have step2: "(if \<not> Valid (ResolutionBreachedAt sla) \<and> \<not> Valid (ResolutionMetAt sla) then
         checkDeadline env sla (ResolutionDeadlineAt sla) (ConversationResolvedAt sla)
           SLATypeResolution
           (lo Debug ''checking deadline''
              [(''deadline'', T (ResolutionDeadlineAt sla)),
               (''met_at'', T (Val (ConversationResolvedAt sla))),
               (''sla_type'', S SLATypeResolution)] (tr @ X1))
       else (None, tr @ X1)) = (r2, tr @ X1 @ X2)"
    using B(1) by (cases ?second) (auto simp: lo_def X2_def r2_def resolution_open_def)
  have X2: "evaluated X2 = []" "filter is_evaluation_error X2 = []"
      "filter is_fetch X2 = []" "length (filter is_refused X2) = (if r2 = None then 0 else 1)"
    using B(2-5) by (auto simp: X2_def r2_def)
  show ?thesis
    unfolding evaluateSLA_def step1
    using X1 X2 step2
    by (cases r1; cases r2)
       (auto simp: andThen_def wrapped_def Exec_def Let_def split: option.splits)
qed

lemma evaluate_rows_batch:
  assumes nocancel: "\<And>h. \<not> ctx_Done env h"
  shows "\<exists>X. evaluate_rows env rows tr = (None, tr @ X) \<and>
     evaluated X = map (\<lambda>r. (ConversationID r, ID r)) rows \<and>
     filter is_fetch X = [] \<and>
     length (filter is_evaluation_error X) = length (filter is_refused X)"
proof (induction rows arbitrary: tr)
  case Nil
  show ?case by simp
next
  case (Cons sla rest)
  obtain A where A: "snd (evaluateSLA env sla (tr @ [CtxDone False])) = (tr @ [CtxDone False]) @ A"
      "evaluated A = [(ConversationID sla, ID sla)]"
      "filter is_evaluation_error A = []" "filter is_fetch A = []"
      "length (filter is_refused A) = (if fst (evaluateSLA env sla (tr @ [CtxDone False])) = None then 0 else 1)"
    using evaluateSLA_batch by blast
  show ?case
  proof (cases "fst (evaluateSLA env sla (tr @ [CtxDone False]))")
    case None
    then have e: "evaluateSLA env sla (tr @ [CtxDone False]) = (None, tr @ [CtxDone False] @ A)"
      using A(1) by (cases "evaluateSLA env sla (tr @ [CtxDone False])") simp
    obtain X where X: "evaluate_rows env rest (tr @ [CtxDone False] @ A) = (None, (tr @ [CtxDone False] @ A) @ X)"
      "evaluated X = map (\<lambda>r. (ConversationID r, ID r)) rest" "filter is_fetch X = []"
      "length (filter is_evaluation_error X) = length (filter is_refused X)"
      using Cons.IH by blast
    have "evaluate_rows env (sla # rest) tr = (None, tr @ ([CtxDone False] @ A @ X))"
      using e X(1) by (simp add: call_def nocancel)
    moreover have "evaluated ([CtxDone False] @ A @ X) = map (\<lambda>r. (ConversationID r, ID r)) (sla # rest)"
      using A(2) X(2) by simp
    moreover have "filter is_fetch ([CtxDone False] @ A @ X) = []"
      using A(4) X(3) by simp
    moreover have "length (filter is_evaluation_error ([CtxDone False] @ A @ X))
        = length (filter is_refused ([CtxDone False] @ A @ X))"
      using A(3,5) X(4) None by simp
    ultimately show ?thesis by blast
  next
    case (Some err)
    let ?l = "Log Err ''error evaluating SLA'' [(''error'', E err)]"
    have e: "evaluateSLA env sla (tr @ [CtxDone False]) = (Some err, tr @ [CtxDone False] @ A)"
      using A(1) Some by (cases "evaluateSLA env sla (tr @ [CtxDone False])") simp
    obtain X where X: "evaluate_rows env rest (tr @ [CtxDone False] @ A @ [?l])
          = (None, (tr @ [CtxDone False] @ A @ [?l]) @ X)"
      "evaluated X = map (\<lambda>r. (ConversationID r, ID r)) rest" "filter is_fetch X = []"
      "length (filter is_evaluation_error X) = length (filter is_refused X)"
      using Cons.IH by blast
    have "evaluate_rows env (sla # rest) tr = (None, tr @ ([CtxDone False] @ A @ [?l] @ X))"
      using e X(1) by (simp add: call_def nocancel lo_def)
    moreover have "evaluated ([CtxDone False] @ A @ [?l] @ X) = map (\<lambda>r. (ConversationID r, ID r)) (sla # rest)"
      using A(2) X(2) by simp
    moreover have "filter is_fetch ([CtxDone False] @ A @ [?l] @ X) = []"
      using A(4) X(3) by simp
    moreover have "length (filter is_evaluation_error ([CtxDone False] @ A @ [?l] @ X))
        = length (filter is_refused ([CtxDone False] @ A @ [?l] @ X))"
      using A(3,5) X(4) Some by simp
    ultimately show ?thesis by blast
  qed
qed

lemma evaluate_rows_fetch:
  "\<exists>X. snd (evaluate_rows env rows tr) = tr @ X \<and> filter is_fetch X = []"
proof (induction rows arbitrary: tr)
  case Nil
  show ?case by simp
next
  case (Cons sla rest)
  show ?case
  proof (cases "ctx_Done env tr")
    case True
    then show ?thesis by (simp add: call_def)
  next
    case False
    obtain A where A: "snd (evaluateSLA env sla (tr @ [CtxDone False])) = (tr @ [CtxDone False]) @ A"
        "filter is_fetch A = []"
      using evaluateSLA_batch by blast
    obtain r where e: "evaluateSLA env sla (tr @ [CtxDone False]) = (r, tr @ [CtxDone False] @ A)"
      using A(1) by (cases "evaluateSLA env sla (tr @ [CtxDone False])") simp
    show ?thesis
    proof (cases r)
      case None
      obtain X where X: "snd (evaluate_rows env rest (tr @ [CtxDone False] @ A)) = (tr @ [CtxDone False] @ A) @ X"
          "filter is_fetch X = []"
        using Cons.IH by blast
      have "snd (evaluate_rows env (sla # rest) tr) = tr @ ([CtxDone False] @ A @ X)"
        using e X(1) None False by (simp add: call_def)
      moreover have "filter is_fetch ([CtxDone False] @ A @ X) = []"
        using A(2) X(2) by simp
      ultimately show ?thesis by blast
    next
      case (Some err)
      let ?l = "Log Err ''error evaluating SLA'' [(''error'', E err)]"
      obtain X where X: "snd (evaluate_rows env rest (tr @ [CtxDone False] @ A @ [?l]))
            = (tr @ [CtxDone False] @ A @ [?l]) @ X"
          "filter is_fetch X = []"
        using Cons.IH by blast
      have "snd (evaluate_rows env (sla # rest) tr) = tr @ ([CtxDone False] @ A @ [?l] @ X)"
        using e X(1) Some False by (simp add: call_def lo_def)
      moreover have "filter is_fetch ([CtxDone False] @ A @ [?l] @ X) = []"
        using A(2) X(2) by simp
      ultimately show ?thesis by blast
    qed
  qed
qed

lemma evaluatePendingSLAs_fetch:
  "\<exists>X. snd (evaluatePendingSLAs env tr) = tr @ X \<and> length (filter is_fetch X) = 1"
proof (cases "db_GetPendingSLAs env tr")
  case (Inl err)
  then show ?thesis by (simp add: evaluatePendingSLAs_def call_def lo_def)
next
  case (Inr rows)
  let ?i = "Log Info ''evaluating pending SLAs'' [(''count'', I (int (length rows)))]"
  obtain X where X: "snd (evaluate_rows env rows (tr @ [DBGetPendingSLAs, ?i])) = (tr @ [DBGetPendingSLAs, ?i]) @ X"
      "filter is_fetch X = []"
    using evaluate_rows_fetch by blast
  obtain r where e: "evaluate_rows env rows (tr @ [DBGetPendingSLAs, ?i]) = (r, tr @ [DBGetPendingSLAs, ?i] @ X)"
    using X(1) by (cases "evaluate_rows env rows (tr @ [DBGetPendingSLAs, ?i])") simp
  show ?thesis
    using Inr e X(2)
    by (cases r) (auto simp: evaluatePendingSLAs_def call_def lo_def andThen_def)
qed

lemma Run_fetches:
  "\<exists>X. Run n env tr = tr @ X \<and> length (filter is_fetch X) = n"
proof (induction n arbitrary: tr)
  case 0
  show ?case by simp
next
  case (Suc n)
  obtain A where A: "snd (evaluatePendingSLAs env tr) = tr @ A" "length (filter is_fetch A) = 1"
    using evaluatePendingSLAs_fetch by blast
  obtain r where e: "evaluatePendingSLAs env tr = (r, tr @ A)"
    using A(1) by (cases "evaluatePendingSLAs env tr") simp
  show ?case
  proof (cases r)
    case None
    obtain X where X: "Run n env (tr @ A) = (tr @ A) @ X" "length (filter is_fetch X) = n"
      using Suc.IH by blast
    have "Run (Suc n) env tr = tr @ (A @ X)" using e None X(1) by simp
    moreover have "length (filter is_fetch (A @ X)) = Suc n" using A(2) X(2) by simp
    ultimately show ?thesis by blast
  next
    case (Some err)
    let ?l = "Log Err ''error processing pending SLAs'' [(''error'', E err)]"
    obtain X where X: "Run n env (tr @ A @ [?l]) = (tr @ A @ [?l]) @ X" "length (filter is_fetch X) = n"
      using Suc.IH by blast
    have "Run (Suc n) env tr = tr @ (A @ [?l] @ X)" using e Some X(1) by (simp add: lo_def)
    moreover have "length (filter is_fetch (A @ [?l] @ X)) = Suc n" using A(2) X(2) by simp
    ultimately show ?thesis by blast
  qed
qed

text \<open>
  C6. When the context is not cancelled during the batch and the pending rows are
  fetched, \<^verbatim>\<open>evaluatePendingSLAs\<close> returns no error whatever the database does to
  the statements of the rows; the evaluation of every fetched row begins, in the order
  fetched; and the loop writes one error line per statement the database refused, which
  is one per failed row, since a row's evaluation stops at its first refused statement.
  \<^verbatim>\<open>Run\<close> fetches the pending rows once per tick, in every environment: no error of
  a sweep ends the loop.
\<close>

theorem C6_failed_row_does_not_stop_batch:
  assumes nocancel: "\<And>h. \<not> ctx_Done env h" and fetch: "db_GetPendingSLAs env tr = Inr rows"
  shows "fst (evaluatePendingSLAs env tr) = None
     \<and> evaluated (emitted tr (snd (evaluatePendingSLAs env tr))) = map (\<lambda>r. (ConversationID r, ID r)) rows
     \<and> length (filter is_evaluation_error (emitted tr (snd (evaluatePendingSLAs env tr))))
         = length (filter is_refused (emitted tr (snd (evaluatePendingSLAs env tr))))
     \<and> length (filter is_fetch (emitted tr (Run n env tr))) = n"
proof -
  let ?i = "Log Info ''evaluating pending SLAs'' [(''count'', I (int (length rows)))]"
  let ?j = "Log Info ''evaluated pending SLAs'' [(''count'', I (int (length rows)))]"
  obtain X where X: "evaluate_rows env rows (tr @ [DBGetPendingSLAs, ?i]) = (None, (tr @ [DBGetPendingSLAs, ?i]) @ X)"
      "evaluated X = map (\<lambda>r. (ConversationID r, ID r)) rows"
      "length (filter is_evaluation_error X) = length (filter is_refused X)"
    using evaluate_rows_batch [OF nocancel] by blast
  have e: "evaluatePendingSLAs env tr = (None, tr @ ([DBGetPendingSLAs, ?i] @ X @ [?j]))"
    using fetch X(1) by (simp add: evaluatePendingSLAs_def call_def lo_def andThen_def)
  obtain Y where Y: "Run n env tr = tr @ Y" "length (filter is_fetch Y) = n"
    using Run_fetches by blast
  show ?thesis
    using X(2,3) Y unfolding e by simp
qed

text \<open>
  C6 in \<open>faulty_env\<close>: the evaluation of row 8 fails at its first statement, row 7 is
  evaluated all the same, and three ticks make three sweeps.
\<close>

theorem C6_witness:
  "(\<forall>h. \<not> ctx_Done faulty_env h) \<and> db_GetPendingSLAs faulty_env [] = Inr [open_row, breached_row]
   \<and> fst (evaluatePendingSLAs faulty_env []) = None
   \<and> evaluated (emitted [] (snd (evaluatePendingSLAs faulty_env []))) = [(6, 8), (5, 7)]
   \<and> length (filter is_evaluation_error (emitted [] (snd (evaluatePendingSLAs faulty_env []))))
       = length (filter is_refused (emitted [] (snd (evaluatePendingSLAs faulty_env []))))
   \<and> filter is_refused (emitted [] (snd (evaluatePendingSLAs faulty_env [])))
       = [DBExec (q_UpdateMet 8 SLATypeFirstResponse) (Some (ErrOther ''deadlock detected''))]
   \<and> length (filter is_fetch (emitted [] (Run 3 faulty_env []))) = 3"
proof -
  have nocancel: "\<And>h. \<not> ctx_Done faulty_env h"
    and fetch: "db_GetPendingSLAs faulty_env [] = Inr [open_row, breached_row]"
    by (simp_all add: faulty_env_def example_env_def)
  have refused: "filter is_refused (emitted [] (snd (evaluatePendingSLAs faulty_env [])))
       = [DBExec (q_UpdateMet 8 SLATypeFirstResponse) (Some (ErrOther ''deadlock detected''))]"
    by (simp add: evaluatePendingSLAs_def call_def lo_def andThen_def faulty_env_def example_env_def
        evaluateSLA_def checkDeadline_def wrapped_def Exec_def Now_def Let_def IsZero_def After_def
        open_row_def breached_row_def null_of_def null_none_def zero_time_def emitted_def
        SLATypeFirstResponse_def SLATypeResolution_def)
  show ?thesis
    using C6_failed_row_does_not_stop_batch [OF nocancel fetch, of 3] nocancel fetch refused
    by (simp add: open_row_def breached_row_def)
qed

section \<open>The calendar and timezone of an SLA application\<close>

lemmas getBH_defs = getBusinessHoursAndTimezone_def bindE_def external_def call_def lo_def

lemma getBH_app:
  assumes "teamID = 0 \<or> (\<exists>team. teamStore_Get env tr teamID = Inr team \<and> \<not> configured (team_configuration team))"
  shows "fst (getBusinessHoursAndTimezone env teamID tr) =
      settled env (tr @ (if teamID = 0 then [] else [TeamStoreGet teamID]) @ [AppSettingsGetByPrefix ''app''])
        (app_tier env (tr @ (if teamID = 0 then [] else [TeamStoreGet teamID])))"
proof -
  let ?h = "tr @ (if teamID = 0 then [] else [TeamStoreGet teamID])"
  show ?thesis
  proof (cases "appSettingsStore_GetByPrefix env ?h ''app''")
    case (Inl err)
    with assms show ?thesis
      by (auto simp: getBH_defs settled_def app_tier_def configured_def team_configuration_def)
  next
    case (Inr s)
    show ?thesis
    proof (cases s)
      case (Malformed msg)
      with Inr assms show ?thesis
        by (auto simp: getBH_defs settled_def app_tier_def configured_def team_configuration_def)
    next
      case (Object out)
      with Inr assms show ?thesis
        by (cases "businessHrsStore_Get env (?h @ [AppSettingsGetByPrefix ''app'']) (fst (app_default out))")
           (auto simp: getBH_defs settled_def app_tier_def configured_def team_configuration_def
              app_default_def calendar_of_def not_configured_def)
    qed
  qed
qed

lemma getBH_team:
  assumes "teamID \<noteq> 0" "teamStore_Get env tr teamID = Inr team" "configured (team_configuration team)"
  shows "fst (getBusinessHoursAndTimezone env teamID tr) =
      calendar_of env (tr @ [TeamStoreGet teamID]) (team_configuration team)"
  using assms
  by (cases "businessHrsStore_Get env (tr @ [TeamStoreGet teamID]) (Val (BusinessHoursID team))")
     (auto simp: getBH_defs configured_def team_configuration_def calendar_of_def)

lemma getBH_team_fails:
  assumes "teamID \<noteq> 0" "teamStore_Get env tr teamID = Inl err"
  shows "fst (getBusinessHoursAndTimezone env teamID tr) = Inl (External err)"
  using assms by (simp add: getBH_defs)

lemma getBH_two_tier:
  "\<exists>h. fst (getBusinessHoursAndTimezone env teamID tr) = settled env h (two_tier env teamID tr)"
proof (cases "teamID = 0")
  case True
  then show ?thesis using getBH_app [of teamID env tr] by (auto simp: two_tier_def)
next
  case False
  show ?thesis
  proof (cases "teamStore_Get env tr teamID")
    case (Inl err)
    then show ?thesis using False getBH_team_fails [of teamID env tr err]
      by (simp add: two_tier_def settled_def)
  next
    case (Inr team)
    show ?thesis
    proof (cases "configured (team_configuration team)")
      case True
      then show ?thesis using False Inr getBH_team [of teamID env tr team]
        by (auto simp: two_tier_def settled_def)
    next
      case c: False
      then show ?thesis using False Inr getBH_app [of teamID env tr]
        by (auto simp: two_tier_def)
    qed
  qed
qed

lemma Atoi_1: "Atoi ''1'' = (1, True)"
  by (simp add: Atoi_def is_digit_def digits_value_def Let_def)

lemma Atoi_42: "Atoi ''42'' = (42, True)"
  by (simp add: Atoi_def is_digit_def digits_value_def Let_def)

lemma Atoi_neg: "Atoi ''-7'' = (-7, True)"
  by (simp add: Atoi_def is_digit_def digits_value_def Let_def)

lemma Atoi_bad: "Atoi ''4x'' = (0, False)"
  by (simp add: Atoi_def is_digit_def digits_value_def Let_def)

lemma Atoi_big: "Atoi ''9223372036854775808'' = (9223372036854775807, False)"
  by (simp add: Atoi_def is_digit_def digits_value_def Let_def)

lemma two_tier_no_nc: "two_tier env teamID tr \<noteq> Inl not_configured"
  by (auto simp: two_tier_def app_tier_def not_configured_def split: sum.splits settings.splits)

lemma calendar_of_no_nc: "calendar_of env h c \<noteq> Inl not_configured"
  by (auto simp: calendar_of_def not_configured_def split: sum.splits)

lemma statements_sent_simps:
  "statements_sent [] = []"
  "statements_sent (X @ Y) = statements_sent X @ statements_sent Y"
  "statements_sent (e # X) = statement_sent e @ statements_sent X"
  by (simp_all add: statements_sent_def)

lemma getBH_statements:
  "\<exists>X. snd (getBusinessHoursAndTimezone env teamID tr) = tr @ X \<and> statements_sent X = []"
proof (cases "teamID = 0")
  case True
  then show ?thesis by (auto simp: getBH_defs statements_sent_simps split: sum.splits settings.splits)
next
  case False
  show ?thesis
  proof (cases "teamStore_Get env tr teamID")
    case (Inl err)
    then show ?thesis using False by (simp add: getBH_defs statements_sent_simps)
  next
    case (Inr team)
    then show ?thesis using False
      by (auto simp: getBH_defs statements_sent_simps split: sum.splits settings.splits)
  qed
qed

lemma CalculateDeadlines_computed:
  assumes bh: "fst (getBusinessHoursAndTimezone env teamID tr) = Inr (bh, tz)"
    and pol: "\<And>h. db_GetSLA env h pid = Inr sla"
    and d1: "calculateDeadline env start bh tz (FirstResponseTime sla) = Inr first"
    and d2: "calculateDeadline env start bh tz (ResolutionTime sla) = Inr resolution"
  shows "\<exists>X. CalculateDeadlines env start pid teamID tr
           = (Inr \<lparr>FirstResponse = first, Resolution = resolution\<rparr>, tr @ X)
         \<and> statements_sent X = []"
proof -
  obtain A where A: "snd (getBusinessHoursAndTimezone env teamID tr) = tr @ A" "statements_sent A = []"
    using getBH_statements by blast
  have r: "getBusinessHoursAndTimezone env teamID tr = (Inr (bh, tz), tr @ A)"
    using bh A(1) by (cases "getBusinessHoursAndTimezone env teamID tr") simp
  let ?l = "Log Info ''calculating deadlines''
            [(''timezone'', S tz), (''business_hours_always_open'', B (IsAlwaysOpen bh))]"
  have "CalculateDeadlines env start pid teamID tr
           = (Inr \<lparr>FirstResponse = first, Resolution = resolution\<rparr>, tr @ (A @ [?l, DBGetSLA pid]))"
    by (simp add: CalculateDeadlines_def r bindE_def sla_Get_def call_def lo_def pol d1 d2)
  moreover have "statements_sent (A @ [?l, DBGetSLA pid]) = []" using A(2) by (simp add: statements_sent_simps)
  ultimately show ?thesis by blast
qed

lemma sla_ApplySLA_statement:
  assumes bh: "fst (getBusinessHoursAndTimezone env teamID tr) = Inr (bh, tz)"
    and pol: "\<And>h. db_GetSLA env h pid = Inr sla"
    and d1: "calculateDeadline env start bh tz (FirstResponseTime sla) = Inr first"
    and d2: "calculateDeadline env start bh tz (ResolutionTime sla) = Inr resolution"
  shows "\<exists>X. snd (sla_ApplySLA env start cid teamID pid tr) = tr @ X
     \<and> statements_sent X = [q_ApplySLA cid pid first resolution]"
proof -
  obtain A where A: "CalculateDeadlines env start pid teamID tr
           = (Inr \<lparr>FirstResponse = first, Resolution = resolution\<rparr>, tr @ A)" "statements_sent A = []"
    using CalculateDeadlines_computed [OF bh pol d1 d2] by blast
  let ?s = "q_ApplySLA cid pid first resolution"
  show ?thesis
  proof (cases "db_Exec env (tr @ A) ?s")
    case (Some err)
    have "snd (sla_ApplySLA env start cid teamID pid tr)
        = tr @ (A @ [DBExec ?s (Some err), Log Err ''error applying SLA'' [(''error'', E (External err))]])"
      using Some by (simp add: sla_ApplySLA_def A(1) bindE_def Exec_def lo_def Let_def)
    moreover have "statements_sent (A @ [DBExec ?s (Some err), Log Err ''error applying SLA'' [(''error'', E (External err))]]) = [?s]"
      using A(2) by (simp add: statements_sent_simps)
    ultimately show ?thesis by blast
  next
    case None
    have "snd (sla_ApplySLA env start cid teamID pid tr) = tr @ (A @ [DBExec ?s None, DBGetSLA pid])"
      using None by (simp add: sla_ApplySLA_def A(1) bindE_def Exec_def Let_def sla_Get_def call_def pol)
    moreover have "statements_sent (A @ [DBExec ?s None, DBGetSLA pid]) = [?s]"
      using A(2) by (simp add: statements_sent_simps)
    ultimately show ?thesis by blast
  qed
qed

lemma walk_days_no_nc: "walk_days n cal cursor remaining \<noteq> Inl not_configured"
proof (induction n arbitrary: cursor remaining)
  case 0
  show ?case by (simp add: not_configured_def)
next
  case (Suc n)
  show ?case
  proof (cases "Hours cal (weekday (cursor div Day))")
    case None
    then show ?thesis using Suc by (simp add: Let_def)
  next
    case (Some w)
    obtain opens closes where w: "w = (opens, closes)" by (cases w)
    show ?thesis using Some w Suc by (simp add: Let_def)
  qed
qed

lemma calculateDeadline_no_nc: "calculateDeadline env start bh tz d \<noteq> Inl not_configured"
proof (cases "time_ParseDuration env d")
  case (Inl err)
  then show ?thesis by (simp add: calculateDeadline_def not_configured_def)
next
  case (Inr dur)
  show ?thesis
  proof (cases "time_LoadLocation env tz")
    case (Inl err)
    then show ?thesis using Inr
      by (simp add: calculateDeadline_def CalculateDeadline_def not_configured_def)
  next
    case loc: (Inr offset)
    show ?thesis
      using Inr loc walk_days_no_nc [of 365 bh "start + offset" "whole_minutes dur * Minute"]
      by (cases "walk_days 365 bh (start + offset) (whole_minutes dur * Minute)")
         (simp_all add: calculateDeadline_def CalculateDeadline_def not_configured_def)
  qed
qed

lemma sla_Get_no_nc: "fst (sla_Get env pid tr) \<noteq> Inl not_configured"
  by (cases "db_GetSLA env tr pid") (simp_all add: sla_Get_def call_def lo_def not_configured_def)

lemma CalculateDeadlines_nc:
  "fst (CalculateDeadlines env start pid teamID tr) = Inl not_configured
     \<longleftrightarrow> fst (getBusinessHoursAndTimezone env teamID tr) = Inl not_configured"
proof (cases "getBusinessHoursAndTimezone env teamID tr")
  case (Pair r h)
  show ?thesis
  proof (cases r)
    case (Inl err)
    then show ?thesis using Pair by (simp add: CalculateDeadlines_def bindE_def)
  next
    case (Inr c)
    obtain bh tz where c: "c = (bh, tz)" by (cases c)
    let ?h = "lo Info ''calculating deadlines''
            [(''timezone'', S tz), (''business_hours_always_open'', B (IsAlwaysOpen bh))] h"
    obtain g h' where g: "sla_Get env pid ?h = (g, h')" by (cases "sla_Get env pid ?h")
    show ?thesis
    proof (cases g)
      case (Inl err)
      then show ?thesis using Pair Inr c g sla_Get_no_nc [of env pid ?h]
        by (simp add: CalculateDeadlines_def bindE_def)
    next
      case sla: (Inr sla)
      show ?thesis
        using Pair Inr c g sla calculateDeadline_no_nc [of env start bh tz "FirstResponseTime sla"]
          calculateDeadline_no_nc [of env start bh tz "ResolutionTime sla"]
        by (cases "calculateDeadline env start bh tz (FirstResponseTime sla)";
            cases "calculateDeadline env start bh tz (ResolutionTime sla)")
           (simp_all add: CalculateDeadlines_def bindE_def)
    qed
  qed
qed

lemma sla_ApplySLA_nc:
  "fst (sla_ApplySLA env start cid teamID pid tr) = Inl not_configured
     \<longleftrightarrow> fst (getBusinessHoursAndTimezone env teamID tr) = Inl not_configured"
proof (cases "CalculateDeadlines env start pid teamID tr")
  case (Pair r h)
  show ?thesis
  proof (cases r)
    case (Inl err)
    then show ?thesis using Pair CalculateDeadlines_nc [of env start pid teamID tr]
      by (simp add: sla_ApplySLA_def bindE_def)
  next
    case (Inr d)
    let ?s = "q_ApplySLA cid pid (FirstResponse d) (Resolution d)"
    have "fst (sla_ApplySLA env start cid teamID pid tr) \<noteq> Inl not_configured"
      using Pair Inr sla_Get_no_nc [of env pid "h @ [DBExec ?s None]"]
      by (cases "db_Exec env h ?s")
         (simp_all add: sla_ApplySLA_def bindE_def Exec_def Let_def lo_def not_configured_def)
    then show ?thesis using Pair Inr CalculateDeadlines_nc [of env start pid teamID tr] by simp
  qed
qed

lemma sla_ApplySLA_hands_on:
  assumes "fst (getBusinessHoursAndTimezone env teamID tr) = Inl err"
  shows "fst (sla_ApplySLA env start cid teamID pid tr) = Inl err"
  using assms
  by (cases "getBusinessHoursAndTimezone env teamID tr")
     (simp add: sla_ApplySLA_def CalculateDeadlines_def bindE_def)

text \<open>
  C3. Applying a policy (\<^verbatim>\<open>ApplySLA\<close> of the SLA manager) resolves the calendar and
  the timezone by the two-tier lookup: the configuration of the assigned team when a
  team id other than 0 is given and the team names both a business-hours id and a
  timezone, otherwise the default of the app settings. The operation, and
  \<^verbatim>\<open>getBusinessHoursAndTimezone\<close> in it, fails with the not-configured error exactly
  when the lookup ends in a configuration that lacks the business-hours id or the
  timezone; an error of the team store or of the settings is handed on as it is; a
  usable configuration gives its calendar and its timezone; and where that calendar and
  the policy are there, the one statement sent stores the two deadlines computed from
  the start instant against that calendar and that timezone.
\<close>

theorem C3_two_tier_lookup:
  "(fst (sla_ApplySLA env start cid teamID pid tr) = Inl not_configured
      \<longleftrightarrow> (\<exists>c. two_tier env teamID tr = Inr c \<and> \<not> configured c))
   \<and> (fst (getBusinessHoursAndTimezone env teamID tr) = Inl not_configured
      \<longleftrightarrow> (\<exists>c. two_tier env teamID tr = Inr c \<and> \<not> configured c))
   \<and> (two_tier env teamID tr = Inl err \<longrightarrow>
         fst (getBusinessHoursAndTimezone env teamID tr) = Inl err
         \<and> fst (sla_ApplySLA env start cid teamID pid tr) = Inl err)
   \<and> (two_tier env teamID tr = Inr c \<and> configured c \<longrightarrow>
         (\<exists>h. fst (getBusinessHoursAndTimezone env teamID tr) = calendar_of env h c))
   \<and> (two_tier env teamID tr = Inr c \<and> configured c
       \<and> (\<forall>h. businessHrsStore_Get env h (fst c) = Inr bh)
       \<and> (\<forall>h. db_GetSLA env h pid = Inr sla)
       \<and> calculateDeadline env start bh (snd c) (FirstResponseTime sla) = Inr first
       \<and> calculateDeadline env start bh (snd c) (ResolutionTime sla) = Inr resolution
       \<longrightarrow> statements_sent (emitted tr (snd (sla_ApplySLA env start cid teamID pid tr)))
             = [q_ApplySLA cid pid first resolution])"
proof -
  obtain h where h: "fst (getBusinessHoursAndTimezone env teamID tr) = settled env h (two_tier env teamID tr)"
    using getBH_two_tier by blast
  have nc: "fst (getBusinessHoursAndTimezone env teamID tr) = Inl not_configured
      \<longleftrightarrow> (\<exists>c. two_tier env teamID tr = Inr c \<and> \<not> configured c)"
  proof (cases "two_tier env teamID tr")
    case (Inl e)
    then show ?thesis using h two_tier_no_nc [of env teamID tr] by (auto simp: settled_def)
  next
    case (Inr k)
    then show ?thesis using h calendar_of_no_nc [of env h k] by (auto simp: settled_def)
  qed
  have on: "two_tier env teamID tr = Inl err \<Longrightarrow>
         fst (getBusinessHoursAndTimezone env teamID tr) = Inl err
         \<and> fst (sla_ApplySLA env start cid teamID pid tr) = Inl err"
  proof -
    assume "two_tier env teamID tr = Inl err"
    then have "fst (getBusinessHoursAndTimezone env teamID tr) = Inl err"
      using h by (simp add: settled_def)
    then show ?thesis using sla_ApplySLA_hands_on by blast
  qed
  have cal: "two_tier env teamID tr = Inr c \<and> configured c \<Longrightarrow>
         (\<exists>h. fst (getBusinessHoursAndTimezone env teamID tr) = calendar_of env h c)"
    using h by (auto simp: settled_def)
  have st: "statements_sent (emitted tr (snd (sla_ApplySLA env start cid teamID pid tr)))
             = [q_ApplySLA cid pid first resolution]"
    if a: "two_tier env teamID tr = Inr c \<and> configured c
       \<and> (\<forall>h. businessHrsStore_Get env h (fst c) = Inr bh)
       \<and> (\<forall>h. db_GetSLA env h pid = Inr sla)
       \<and> calculateDeadline env start bh (snd c) (FirstResponseTime sla) = Inr first
       \<and> calculateDeadline env start bh (snd c) (ResolutionTime sla) = Inr resolution"
  proof -
    have g: "fst (getBusinessHoursAndTimezone env teamID tr) = Inr (bh, snd c)"
      using h a by (simp add: settled_def calendar_of_def)
    have pol: "\<And>h. db_GetSLA env h pid = Inr sla" using a by simp
    obtain X where "snd (sla_ApplySLA env start cid teamID pid tr) = tr @ X"
      "statements_sent X = [q_ApplySLA cid pid first resolution]"
      using sla_ApplySLA_statement [OF g pol, of start first resolution cid] a by blast
    then show ?thesis by simp
  qed
  show ?thesis
    using nc on cal st sla_ApplySLA_nc [of env start cid teamID pid tr] by blast
qed

text \<open>
  C3 where team 3 names calendar 2 and Europe/Paris (ninety minutes from Monday 00:00 UTC
  end on Monday at 09:30 UTC, the calendar opening at 09:00 in Paris), where no team is
  given (the app default, calendar 1, always open), and where neither tier names a
  timezone (the operation fails as not configured).
\<close>

theorem C3_witness:
  "two_tier paris_env 3 [] = Inr (2, ''Europe/Paris'') \<and> configured (2, ''Europe/Paris'')
   \<and> (\<exists>h. fst (getBusinessHoursAndTimezone paris_env 3 []) = calendar_of paris_env h (2, ''Europe/Paris''))
   \<and> statements_sent (emitted [] (snd (sla_ApplySLA paris_env 1000 5 3 9 [])))
       = [q_ApplySLA 5 9 (570 * Minute) 0]
   \<and> two_tier example_env 0 [] = Inr (1, ''UTC'')
   \<and> statements_sent (emitted [] (snd (sla_ApplySLA example_env 1000 5 0 9 [])))
       = [q_ApplySLA 5 9 (1000 + 90 * Minute) 0]
   \<and> two_tier unconfigured_env 3 [] = Inr (1, '''')
   \<and> fst (sla_ApplySLA unconfigured_env 1000 5 3 9 []) = Inl not_configured"
proof -
  let ?gold = "\<lparr>PolicyName = ''gold'', FirstResponseTime = ''1h30m'', ResolutionTime = ''''\<rparr>"
  have a: "two_tier paris_env 3 [] = Inr (2, ''Europe/Paris'')"
    by (simp add: two_tier_def paris_env_def example_env_def configured_def team_configuration_def null_of_def)
  have b: "two_tier example_env 0 [] = Inr (1, ''UTC'')"
    by (simp add: two_tier_def app_tier_def example_env_def app_default_def example_settings_def
        as_string_def Atoi_1)
  have c: "two_tier unconfigured_env 3 [] = Inr (1, '''')"
    by (simp add: two_tier_def app_tier_def unconfigured_env_def example_env_def app_default_def
        as_string_def Atoi_1 configured_def team_configuration_def null_of_def)
  have k: "configured (2, ''Europe/Paris'')" "configured (1, ''UTC'')" "\<not> configured (1, '''')"
    by (simp_all add: configured_def)
  have cal: "\<forall>h. businessHrsStore_Get paris_env h 2 = Inr (example_calendar 2)"
    "\<forall>h. businessHrsStore_Get example_env h 1 = Inr (example_calendar 1)"
    by (simp_all add: paris_env_def example_env_def)
  have pol: "\<forall>h. db_GetSLA paris_env h 9 = Inr ?gold" "\<forall>h. db_GetSLA example_env h 9 = Inr ?gold"
    by (simp_all add: paris_env_def example_env_def)
  have d: "calculateDeadline paris_env 1000 (example_calendar 2) ''Europe/Paris'' ''1h30m'' = Inr (570 * Minute)"
    "calculateDeadline paris_env 1000 (example_calendar 2) ''Europe/Paris'' '''' = Inr 0"
    "calculateDeadline example_env 1000 (example_calendar 1) ''UTC'' ''1h30m'' = Inr (1000 + 90 * Minute)"
    "calculateDeadline example_env 1000 (example_calendar 1) ''UTC'' '''' = Inr 0"
    by code_simp+
  show ?thesis
    using C3_two_tier_lookup
        [where env = paris_env and teamID = 3 and tr = "[]" and start = 1000 and cid = 5 and pid = 9
           and c = "(2, ''Europe/Paris'')" and bh = "example_calendar 2" and sla = ?gold
           and first = "570 * Minute" and resolution = 0]
      C3_two_tier_lookup
        [where env = example_env and teamID = 0 and tr = "[]" and start = 1000 and cid = 5 and pid = 9
           and c = "(1, ''UTC'')" and bh = "example_calendar 1" and sla = ?gold
           and first = "1000 + 90 * Minute" and resolution = 0]
      C3_two_tier_lookup
        [where env = unconfigured_env and teamID = 3 and tr = "[]" and start = 1000 and cid = 5 and pid = 9]
      a b c k cal pol d
    by simp
qed

text \<open>
  C3 as stated gives, for a team id other than 0, the configuration of the team. In
  \<open>half_env\<close> team 3 names calendar 2 and no timezone: by the words as they stand no
  timezone is resolvable and the operation fails as not configured. The code falls back
  to the app settings for both values: it takes calendar 1 and UTC, does not fail, and
  stores the deadlines computed on them. Nor is the fallback made value by value: in
  \<open>split_env\<close> the team names calendar 2, the app settings name UTC, and the operation
  fails as not configured.
\<close>

theorem C3_counterexample:
  "stated_lookup half_env 3 [] = Inr (2, '''')
   \<and> \<not> configured (2, '''')
   \<and> fst (getBusinessHoursAndTimezone half_env 3 []) = Inr (example_calendar 1, ''UTC'')
   \<and> fst (sla_ApplySLA half_env 1000 5 3 9 []) \<noteq> Inl not_configured
   \<and> statements_sent (emitted [] (snd (sla_ApplySLA half_env 1000 5 3 9 [])))
       = [q_ApplySLA 5 9 (1000 + 90 * Minute) 0]
   \<and> stated_lookup split_env 3 [] = Inr (2, '''')
   \<and> app_tier split_env [TeamStoreGet 3] = Inr (0, ''UTC'')
   \<and> fst (sla_ApplySLA split_env 1000 5 3 9 []) = Inl not_configured"
proof -
  have a: "stated_lookup half_env 3 [] = Inr (2, '''')"
    by (simp add: stated_lookup_def half_env_def example_env_def team_configuration_def null_of_def)
  have b: "\<not> configured (2, '''')" by (simp add: configured_def)
  have c: "fst (getBusinessHoursAndTimezone half_env 3 []) = Inr (example_calendar 1, ''UTC'')"
    by (simp add: getBH_defs half_env_def example_env_def example_settings_def as_string_def Atoi_1
        null_of_def)
  have d: "fst (sla_ApplySLA half_env 1000 5 3 9 []) \<noteq> Inl not_configured"
    by code_simp
  have e: "statements_sent (emitted [] (snd (sla_ApplySLA half_env 1000 5 3 9 [])))
       = [q_ApplySLA 5 9 (1000 + 90 * Minute) 0]"
    by code_simp
  have f: "stated_lookup split_env 3 [] = Inr (2, '''')"
    by (simp add: stated_lookup_def split_env_def example_env_def team_configuration_def null_of_def)
  have g: "app_tier split_env [TeamStoreGet 3] = Inr (0, ''UTC'')"
    by code_simp
  have h: "fst (sla_ApplySLA split_env 1000 5 3 9 []) = Inl not_configured"
    by code_simp
  show ?thesis using a b c d e f g h by blast
qed

lemma engine_only_simps [simp]:
  "engine_only []"
  "engine_only (X @ Y) \<longleftrightarrow> engine_only X \<and> engine_only Y"
  "engine_only (e # X) \<longleftrightarrow> \<not> is_team_lookup e \<and> \<not> is_sla_application e \<and> engine_only X"
  by (auto simp: engine_only_def)

lemma getBH_zero_trace:
  "\<exists>X. snd (getBusinessHoursAndTimezone env 0 tr) = tr @ X \<and> engine_only X"
  by (auto simp: getBH_defs split: sum.splits settings.splits)

lemma sla_Get_trace:
  "\<exists>X. snd (sla_Get env pid tr) = tr @ X \<and> engine_only X"
  by (auto simp: sla_Get_def call_def lo_def split: sum.splits)

lemma CalculateDeadlines_zero_trace:
  "\<exists>X. snd (CalculateDeadlines env start pid 0 tr) = tr @ X \<and> engine_only X"
proof -
  obtain A where A: "snd (getBusinessHoursAndTimezone env 0 tr) = tr @ A" "engine_only A"
    using getBH_zero_trace by blast
  obtain r where r: "getBusinessHoursAndTimezone env 0 tr = (r, tr @ A)"
    using A(1) by (cases "getBusinessHoursAndTimezone env 0 tr") simp
  show ?thesis
  proof (cases r)
    case (Inl err)
    then show ?thesis using r A(2) by (simp add: CalculateDeadlines_def bindE_def)
  next
    case (Inr c)
    obtain bh tz where c: "c = (bh, tz)" by (cases c)
    let ?l = "Log Info ''calculating deadlines''
            [(''timezone'', S tz), (''business_hours_always_open'', B (IsAlwaysOpen bh))]"
    obtain G where G: "snd (sla_Get env pid (tr @ A @ [?l])) = (tr @ A @ [?l]) @ G" "engine_only G"
      using sla_Get_trace by blast
    obtain g where g: "sla_Get env pid (tr @ A @ [?l]) = (g, tr @ A @ [?l] @ G)"
      using G(1) by (cases "sla_Get env pid (tr @ A @ [?l])") simp
    have "snd (CalculateDeadlines env start pid 0 tr) = tr @ (A @ [?l] @ G)"
      using r Inr c g
      by (auto simp: CalculateDeadlines_def bindE_def lo_def split: sum.splits)
    moreover have "engine_only (A @ [?l] @ G)" using A(2) G(2) by simp
    ultimately show ?thesis by blast
  qed
qed

lemma sla_ApplySLA_zero_trace:
  "\<exists>X. snd (sla_ApplySLA env start cid 0 pid tr) = tr @ X \<and> engine_only X"
proof -
  obtain A where A: "snd (CalculateDeadlines env start pid 0 tr) = tr @ A" "engine_only A"
    using CalculateDeadlines_zero_trace by blast
  obtain r where r: "CalculateDeadlines env start pid 0 tr = (r, tr @ A)"
    using A(1) by (cases "CalculateDeadlines env start pid 0 tr") simp
  show ?thesis
  proof (cases r)
    case (Inl err)
    then show ?thesis using r A(2) by (simp add: sla_ApplySLA_def bindE_def)
  next
    case (Inr d)
    let ?s = "q_ApplySLA cid pid (FirstResponse d) (Resolution d)"
    show ?thesis
    proof (cases "db_Exec env (tr @ A) ?s")
      case (Some err)
      then show ?thesis using r Inr A(2)
        by (simp add: sla_ApplySLA_def bindE_def Exec_def lo_def Let_def)
    next
      case None
      obtain G where G: "snd (sla_Get env pid (tr @ A @ [DBExec ?s None])) = (tr @ A @ [DBExec ?s None]) @ G"
          "engine_only G"
        using sla_Get_trace by blast
      have "snd (sla_ApplySLA env start cid 0 pid tr) = tr @ (A @ [DBExec ?s None] @ G)"
        using r Inr None G(1) by (simp add: sla_ApplySLA_def bindE_def Exec_def Let_def)
      moreover have "engine_only (A @ [DBExec ?s None] @ G)" using A(2) G(2) by simp
      ultimately show ?thesis by blast
    qed
  qed
qed

lemma conversation_ApplySLA_trace:
  "\<exists>X. snd (conversation_ApplySLA env uuid cid pid actor tr) = tr @ SLAStoreApplySLA cid 0 pid # X
       \<and> engine_only X"
proof -
  let ?h = "tr @ [SLAStoreApplySLA cid 0 pid]"
  obtain A where A: "snd (sla_ApplySLA env (sla_start_time env tr cid) cid 0 pid ?h) = ?h @ A" "engine_only A"
    using sla_ApplySLA_zero_trace by blast
  obtain r where r: "sla_ApplySLA env (sla_start_time env tr cid) cid 0 pid ?h = (r, ?h @ A)"
    using A(1) by (cases "sla_ApplySLA env (sla_start_time env tr cid) cid 0 pid ?h") simp
  show ?thesis
    using r A(2)
    by (cases r)
       (auto simp: conversation_ApplySLA_def slaStore_ApplySLA_def failing_def RecordSLASet_def
          record_entry_def Let_def split: option.splits)
qed

lemma getBH_zero_teams:
  "getBusinessHoursAndTimezone (env\<lparr>teamStore_Get := teams\<rparr>) 0 tr = getBusinessHoursAndTimezone env 0 tr"
  by (simp add: getBH_defs cong: if_cong sum.case_cong prod.case_cong settings.case_cong)

lemma sla_Get_teams: "sla_Get (env\<lparr>teamStore_Get := teams\<rparr>) pid tr = sla_Get env pid tr"
  by (simp add: sla_Get_def)

lemma calculateDeadline_teams:
  "calculateDeadline (env\<lparr>teamStore_Get := teams\<rparr>) start bh tz d = calculateDeadline env start bh tz d"
  by (simp add: calculateDeadline_def CalculateDeadline_def cong: if_cong sum.case_cong)

lemma CalculateDeadlines_zero_teams:
  "CalculateDeadlines (env\<lparr>teamStore_Get := teams\<rparr>) start pid 0 tr = CalculateDeadlines env start pid 0 tr"
  by (simp add: CalculateDeadlines_def getBH_zero_teams sla_Get_teams calculateDeadline_teams
      cong: if_cong sum.case_cong prod.case_cong)

lemma sla_ApplySLA_zero_teams:
  "sla_ApplySLA (env\<lparr>teamStore_Get := teams\<rparr>) start cid 0 pid tr = sla_ApplySLA env start cid 0 pid tr"
  by (simp add: sla_ApplySLA_def CalculateDeadlines_zero_teams sla_Get_teams Exec_def
      cong: if_cong option.case_cong prod.case_cong sum.case_cong)

lemma RecordSLASet_teams:
  "RecordSLASet (env\<lparr>teamStore_Get := teams\<rparr>) uuid name actor tr = RecordSLASet env uuid name actor tr"
  by (simp add: RecordSLASet_def record_entry_def)

lemma conversation_ApplySLA_teams:
  "conversation_ApplySLA (env\<lparr>teamStore_Get := teams\<rparr>) uuid cid pid actor tr
     = conversation_ApplySLA env uuid cid pid actor tr"
  by (simp add: conversation_ApplySLA_def slaStore_ApplySLA_def sla_ApplySLA_zero_teams
      RecordSLASet_teams cong: if_cong sum.case_cong prod.case_cong)

lemmas action_names = ActionAssignTeam_def ActionAssignUser_def ActionSetPriority_def
  ActionSetStatus_def ActionSendPrivateNote_def ActionReply_def ActionSetSLA_def ActionSetTags_def

lemma ApplyAction_set_sla:
  assumes "Type action = ActionSetSLA"
  shows "ApplyAction env action conversation user0 tr0 =
    (if length (Value action) = 0 then
       (Some (Errorf (''no value provided for action '' @ Type action)),
        lo Warn ''no value provided for action''
          [(''action'', S (Type action)), (''conversation_uuid'', S (UUID conversation))] tr0)
     else bindO
       (if UserID user0 = 0 then
          (case call (userStore_GetSystemUser env) UserStoreGetSystemUser tr0 of
             (Inl err, tr) \<Rightarrow>
               (Inl (Wrapf (''could not apply '' @ Type action @ '' action. could not fetch system user: '')
                      (External err)), tr)
           | (Inr systemUser, tr) \<Rightarrow> (Inr systemUser, tr))
        else (Inr user0, tr0))
     (\<lambda>user tr.
         could_not_apply action
           (conversation_ApplySLA env (UUID conversation) (ConvID conversation) (fst (Atoi (Value action ! 0))) user
              (lo Debug ''executing apply SLA action''
                 [(''value'', S (Value action ! 0)), (''conversation_uuid'', S (UUID conversation))] tr))))"
  using assms by (simp add: ApplyAction_def action_names)

lemma no_application_team_zero:
  "filter is_sla_application X = [] \<Longrightarrow> list_all with_team_zero X"
proof (induction X)
  case Nil
  show ?case by simp
next
  case (Cons e X)
  then show ?case by (cases e) (auto split: if_splits)
qed

lemma ApplyAction_set_sla_trace:
  assumes "Type action = ActionSetSLA"
  shows "\<exists>X. snd (ApplyAction env action conversation user tr) = tr @ X
     \<and> list_all with_team_zero X \<and> filter is_team_lookup X = []"
proof (cases "Value action = []")
  case True
  then show ?thesis by (simp add: ApplyAction_set_sla [OF assms] lo_def)
next
  case False
  define pid where "pid = fst (Atoi (Value action ! 0))"
  let ?d = "Log Debug ''executing apply SLA action''
                 [(''value'', S (Value action ! 0)), (''conversation_uuid'', S (UUID conversation))]"
  have main: "\<exists>X. snd (could_not_apply action
           (conversation_ApplySLA env (UUID conversation) (ConvID conversation) pid u (h @ [?d])))
        = h @ ?d # SLAStoreApplySLA (ConvID conversation) 0 pid # X \<and> engine_only X" for u h
  proof -
    obtain X where X: "snd (conversation_ApplySLA env (UUID conversation) (ConvID conversation) pid u (h @ [?d]))
         = (h @ [?d]) @ SLAStoreApplySLA (ConvID conversation) 0 pid # X" "engine_only X"
      using conversation_ApplySLA_trace by blast
    then show ?thesis
      by (cases "conversation_ApplySLA env (UUID conversation) (ConvID conversation) pid u (h @ [?d])")
         (auto simp: could_not_apply_def split: option.splits)
  qed
  show ?thesis
  proof (cases "UserID user = 0")
    case nouser: True
    show ?thesis
    proof (cases "userStore_GetSystemUser env tr")
      case (Inl err)
      then show ?thesis using False nouser
        by (simp add: ApplyAction_set_sla [OF assms] bindO_def call_def)
    next
      case (Inr su)
      obtain X where X: "snd (could_not_apply action
           (conversation_ApplySLA env (UUID conversation) (ConvID conversation) pid su
              ((tr @ [UserStoreGetSystemUser]) @ [?d])))
        = (tr @ [UserStoreGetSystemUser]) @ ?d # SLAStoreApplySLA (ConvID conversation) 0 pid # X"
        "engine_only X"
        using main by blast
      have "snd (ApplyAction env action conversation user tr)
          = tr @ (UserStoreGetSystemUser # ?d # SLAStoreApplySLA (ConvID conversation) 0 pid # X)"
        using False nouser Inr X(1)
        by (simp add: ApplyAction_set_sla [OF assms] bindO_def call_def lo_def pid_def)
      moreover have "list_all with_team_zero (UserStoreGetSystemUser # ?d # SLAStoreApplySLA (ConvID conversation) 0 pid # X)"
        using X(2) no_application_team_zero by (simp add: engine_only_def)
      moreover have "filter is_team_lookup (UserStoreGetSystemUser # ?d # SLAStoreApplySLA (ConvID conversation) 0 pid # X) = []"
        using X(2) by (simp add: engine_only_def)
      ultimately show ?thesis by blast
    qed
  next
    case hasuser: False
    obtain X where X: "snd (could_not_apply action
           (conversation_ApplySLA env (UUID conversation) (ConvID conversation) pid user (tr @ [?d])))
        = tr @ ?d # SLAStoreApplySLA (ConvID conversation) 0 pid # X"
        "engine_only X"
      using main by blast
    have "snd (ApplyAction env action conversation user tr)
          = tr @ (?d # SLAStoreApplySLA (ConvID conversation) 0 pid # X)"
      using False hasuser X(1)
      by (simp add: ApplyAction_set_sla [OF assms] bindO_def lo_def pid_def)
    moreover have "list_all with_team_zero (?d # SLAStoreApplySLA (ConvID conversation) 0 pid # X)"
      using X(2) no_application_team_zero by (simp add: engine_only_def)
    moreover have "filter is_team_lookup (?d # SLAStoreApplySLA (ConvID conversation) 0 pid # X) = []"
      using X(2) by (simp add: engine_only_def)
    ultimately show ?thesis by blast
  qed
qed

lemma ApplyAction_set_sla_teams:
  assumes "Type action = ActionSetSLA"
  shows "ApplyAction (env\<lparr>teamStore_Get := teams\<rparr>) action (conversation\<lparr>AssignedTeamID := team\<rparr>) user tr
     = ApplyAction env action conversation user tr"
  by (simp add: ApplyAction_set_sla [OF assms] conversation_ApplySLA_teams)

lemma getBH_zero_app_default:
  assumes app: "\<And>h. appSettingsStore_GetByPrefix env h ''app'' = Inr (Object out)"
    and conf: "configured (app_default out)"
    and cal: "\<And>h. businessHrsStore_Get env h (fst (app_default out)) = Inr bh"
  shows "fst (getBusinessHoursAndTimezone env 0 h) = Inr (bh, snd (app_default out))"
  using getBH_app [of 0 env h] conf
  by (simp add: app_tier_def app settled_def calendar_of_def cal)

lemma conversation_ApplySLA_statement:
  assumes app: "\<And>h. appSettingsStore_GetByPrefix env h ''app'' = Inr (Object out)"
    and conf: "configured (app_default out)"
    and cal: "\<And>h. businessHrsStore_Get env h (fst (app_default out)) = Inr bh"
    and pol: "\<And>h. db_GetSLA env h pid = Inr sla"
    and st: "\<And>h. sla_start_time env h cid = start"
    and d1: "calculateDeadline env start bh (snd (app_default out)) (FirstResponseTime sla) = Inr first"
    and d2: "calculateDeadline env start bh (snd (app_default out)) (ResolutionTime sla) = Inr resolution"
  shows "\<exists>X. snd (conversation_ApplySLA env uuid cid pid actor tr) = tr @ X
     \<and> statements_sent X = [q_ApplySLA cid pid first resolution]"
proof -
  let ?h = "tr @ [SLAStoreApplySLA cid 0 pid]"
  have g: "fst (getBusinessHoursAndTimezone env 0 ?h) = Inr (bh, snd (app_default out))"
    by (rule getBH_zero_app_default [OF app conf cal])
  obtain A where A: "snd (sla_ApplySLA env start cid 0 pid ?h) = ?h @ A"
      "statements_sent A = [q_ApplySLA cid pid first resolution]"
    using sla_ApplySLA_statement [OF g pol d1 d2] by blast
  obtain r where r: "sla_ApplySLA env start cid 0 pid ?h = (r, ?h @ A)"
    using A(1) by (cases "sla_ApplySLA env start cid 0 pid ?h") simp
  show ?thesis
  proof (cases r)
    case (Inl err)
    have "snd (conversation_ApplySLA env uuid cid pid actor tr) = tr @ (SLAStoreApplySLA cid 0 pid # A)"
      using r Inl by (simp add: conversation_ApplySLA_def slaStore_ApplySLA_def st)
    moreover have "statements_sent (SLAStoreApplySLA cid 0 pid # A) = [q_ApplySLA cid pid first resolution]"
      using A(2) by (simp add: statements_sent_simps)
    ultimately show ?thesis by blast
  next
    case (Inr policy)
    let ?e = "RecordActivity uuid (SLASet (PolicyName policy)) actor
                (record_activity env (?h @ A) uuid (SLASet (PolicyName policy)) actor)"
    have "snd (conversation_ApplySLA env uuid cid pid actor tr)
        = tr @ (SLAStoreApplySLA cid 0 pid # A @ [?e])"
      using r Inr
      by (simp add: conversation_ApplySLA_def slaStore_ApplySLA_def st failing_def RecordSLASet_def
          record_entry_def Let_def split: option.splits)
    moreover have "statements_sent (SLAStoreApplySLA cid 0 pid # A @ [?e]) = [q_ApplySLA cid pid first resolution]"
      using A(2) by (simp add: statements_sent_simps)
    ultimately show ?thesis by blast
  qed
qed

lemma snd_could_not_apply: "snd (could_not_apply action r) = snd r"
  by (cases r) (simp add: could_not_apply_def split: option.splits)

lemma ApplyAction_set_sla_statement:
  assumes t: "Type action = ActionSetSLA" and v: "Value action \<noteq> []"
    and u: "UserID user \<noteq> 0 \<or> (\<exists>su. userStore_GetSystemUser env tr = Inr su)"
    and app: "\<And>h. appSettingsStore_GetByPrefix env h ''app'' = Inr (Object out)"
    and conf: "configured (app_default out)"
    and cal: "\<And>h. businessHrsStore_Get env h (fst (app_default out)) = Inr bh"
    and pol: "\<And>h. db_GetSLA env h (fst (Atoi (Value action ! 0))) = Inr sla"
    and st: "\<And>h. sla_start_time env h (ConvID conversation) = start"
    and d1: "calculateDeadline env start bh (snd (app_default out)) (FirstResponseTime sla) = Inr first"
    and d2: "calculateDeadline env start bh (snd (app_default out)) (ResolutionTime sla) = Inr resolution"
  shows "statements_sent (emitted tr (snd (ApplyAction env action conversation user tr)))
      = [q_ApplySLA (ConvID conversation) (fst (Atoi (Value action ! 0))) first resolution]"
proof -
  let ?d = "Log Debug ''executing apply SLA action''
                 [(''value'', S (Value action ! 0)), (''conversation_uuid'', S (UUID conversation))]"
  let ?pid = "fst (Atoi (Value action ! 0))"
  have main: "\<exists>X. snd (conversation_ApplySLA env (UUID conversation) (ConvID conversation) ?pid a (h @ [?d]))
        = (h @ [?d]) @ X \<and> statements_sent X = [q_ApplySLA (ConvID conversation) ?pid first resolution]" for a h
    by (rule conversation_ApplySLA_statement [OF app conf cal pol st d1 d2])
  show ?thesis
  proof (cases "UserID user = 0")
    case True
    then obtain su where su: "userStore_GetSystemUser env tr = Inr su" using u by blast
    obtain X where X: "snd (conversation_ApplySLA env (UUID conversation) (ConvID conversation) ?pid su
         ((tr @ [UserStoreGetSystemUser]) @ [?d])) = ((tr @ [UserStoreGetSystemUser]) @ [?d]) @ X"
      "statements_sent X = [q_ApplySLA (ConvID conversation) ?pid first resolution]"
      using main by blast
    have "snd (ApplyAction env action conversation user tr) = tr @ (UserStoreGetSystemUser # ?d # X)"
      using True v su X(1)
      by (simp add: ApplyAction_set_sla [OF t] bindO_def call_def lo_def snd_could_not_apply)
    then show ?thesis using X(2) by (simp add: statements_sent_simps)
  next
    case False
    obtain X where X: "snd (conversation_ApplySLA env (UUID conversation) (ConvID conversation) ?pid user
         (tr @ [?d])) = (tr @ [?d]) @ X"
      "statements_sent X = [q_ApplySLA (ConvID conversation) ?pid first resolution]"
      using main by blast
    have "snd (ApplyAction env action conversation user tr) = tr @ (?d # X)"
      using False v X(1)
      by (simp add: ApplyAction_set_sla [OF t] bindO_def lo_def snd_could_not_apply)
    then show ?thesis using X(2) by (simp add: statements_sent_simps)
  qed
qed

text \<open>
  C10. \<^verbatim>\<open>ApplySLA\<close> of the conversation store hands the SLA engine one application,
  with the team id 0; the run never asks the team store, and its result and trace are
  the same whatever the team store would answer. The same holds for the set-SLA action
  of \<^verbatim>\<open>ApplyAction\<close>, whatever team the conversation is assigned to. With the team
  id 0 the calendar and the timezone are settled from the app settings alone. Where the
  app settings, the calendar they name, the policy and the start instant are there, the
  one statement sent by \<^verbatim>\<open>ApplySLA\<close> of the conversation store, and by the set-SLA
  action, stores the two deadlines computed from the start instant against the calendar
  and the timezone of the app settings, whatever the team store would answer and
  whatever team the conversation is assigned to.
\<close>

theorem C10_store_applies_sla_with_team_zero:
  "filter is_sla_application (emitted tr (snd (conversation_ApplySLA env uuid cid pid actor tr)))
      = [SLAStoreApplySLA cid 0 pid]
   \<and> filter is_team_lookup (emitted tr (snd (conversation_ApplySLA env uuid cid pid actor tr))) = []
   \<and> conversation_ApplySLA (env\<lparr>teamStore_Get := teams\<rparr>) uuid cid pid actor tr
      = conversation_ApplySLA env uuid cid pid actor tr
   \<and> (Type action = ActionSetSLA \<longrightarrow>
        list_all with_team_zero (emitted tr (snd (ApplyAction env action conversation user tr)))
        \<and> filter is_team_lookup (emitted tr (snd (ApplyAction env action conversation user tr))) = []
        \<and> ApplyAction (env\<lparr>teamStore_Get := teams\<rparr>) action (conversation\<lparr>AssignedTeamID := team\<rparr>) user tr
           = ApplyAction env action conversation user tr)
   \<and> fst (getBusinessHoursAndTimezone env 0 tr)
      = settled env (tr @ [AppSettingsGetByPrefix ''app'']) (app_tier env tr)
   \<and> ((\<forall>h. appSettingsStore_GetByPrefix env h ''app'' = Inr (Object out))
       \<and> configured (app_default out)
       \<and> (\<forall>h. businessHrsStore_Get env h (fst (app_default out)) = Inr bh)
       \<and> (\<forall>h. db_GetSLA env h pid = Inr sla)
       \<and> (\<forall>h. sla_start_time env h cid = start)
       \<and> calculateDeadline env start bh (snd (app_default out)) (FirstResponseTime sla) = Inr first
       \<and> calculateDeadline env start bh (snd (app_default out)) (ResolutionTime sla) = Inr resolution
       \<longrightarrow>
         statements_sent
             (emitted tr (snd (conversation_ApplySLA (env\<lparr>teamStore_Get := teams\<rparr>) uuid cid pid actor tr)))
           = [q_ApplySLA cid pid first resolution]
         \<and> (Type action = ActionSetSLA \<and> Value action \<noteq> []
              \<and> fst (Atoi (Value action ! 0)) = pid \<and> ConvID conversation = cid
              \<and> (UserID user \<noteq> 0 \<or> (\<exists>su. userStore_GetSystemUser env tr = Inr su))
            \<longrightarrow>
              statements_sent
                  (emitted tr (snd (ApplyAction (env\<lparr>teamStore_Get := teams\<rparr>) action
                                      (conversation\<lparr>AssignedTeamID := team\<rparr>) user tr)))
                = [q_ApplySLA cid pid first resolution]))"
proof -
  obtain X where X: "snd (conversation_ApplySLA env uuid cid pid actor tr) = tr @ SLAStoreApplySLA cid 0 pid # X"
      "engine_only X"
    using conversation_ApplySLA_trace by blast
  have a: "filter is_sla_application (emitted tr (snd (conversation_ApplySLA env uuid cid pid actor tr)))
      = [SLAStoreApplySLA cid 0 pid]"
    and b: "filter is_team_lookup (emitted tr (snd (conversation_ApplySLA env uuid cid pid actor tr))) = []"
    using X by (simp_all add: engine_only_def)
  have c: "Type action = ActionSetSLA \<Longrightarrow>
        list_all with_team_zero (emitted tr (snd (ApplyAction env action conversation user tr)))
        \<and> filter is_team_lookup (emitted tr (snd (ApplyAction env action conversation user tr))) = []"
  proof -
    assume t: "Type action = ActionSetSLA"
    obtain Y where "snd (ApplyAction env action conversation user tr) = tr @ Y"
      "list_all with_team_zero Y" "filter is_team_lookup Y = []"
      using ApplyAction_set_sla_trace [OF t] by blast
    then show ?thesis by simp
  qed
  have d: "fst (getBusinessHoursAndTimezone env 0 tr)
      = settled env (tr @ [AppSettingsGetByPrefix ''app'']) (app_tier env tr)"
    using getBH_app [of 0 env tr] by simp
  have e: "statements_sent
             (emitted tr (snd (conversation_ApplySLA (env\<lparr>teamStore_Get := teams\<rparr>) uuid cid pid actor tr)))
           = [q_ApplySLA cid pid first resolution]"
    if s: "(\<forall>h. appSettingsStore_GetByPrefix env h ''app'' = Inr (Object out))
       \<and> configured (app_default out)
       \<and> (\<forall>h. businessHrsStore_Get env h (fst (app_default out)) = Inr bh)
       \<and> (\<forall>h. db_GetSLA env h pid = Inr sla)
       \<and> (\<forall>h. sla_start_time env h cid = start)
       \<and> calculateDeadline env start bh (snd (app_default out)) (FirstResponseTime sla) = Inr first
       \<and> calculateDeadline env start bh (snd (app_default out)) (ResolutionTime sla) = Inr resolution"
  proof -
    obtain Y where "snd (conversation_ApplySLA env uuid cid pid actor tr) = tr @ Y"
      "statements_sent Y = [q_ApplySLA cid pid first resolution]"
      using conversation_ApplySLA_statement [of env out bh pid sla cid start first resolution uuid actor tr] s
      by blast
    then show ?thesis by (simp add: conversation_ApplySLA_teams)
  qed
  have f: "statements_sent
                  (emitted tr (snd (ApplyAction (env\<lparr>teamStore_Get := teams\<rparr>) action
                                      (conversation\<lparr>AssignedTeamID := team\<rparr>) user tr)))
                = [q_ApplySLA cid pid first resolution]"
    if s: "(\<forall>h. appSettingsStore_GetByPrefix env h ''app'' = Inr (Object out))
       \<and> configured (app_default out)
       \<and> (\<forall>h. businessHrsStore_Get env h (fst (app_default out)) = Inr bh)
       \<and> (\<forall>h. db_GetSLA env h pid = Inr sla)
       \<and> (\<forall>h. sla_start_time env h cid = start)
       \<and> calculateDeadline env start bh (snd (app_default out)) (FirstResponseTime sla) = Inr first
       \<and> calculateDeadline env start bh (snd (app_default out)) (ResolutionTime sla) = Inr resolution"
      and t: "Type action = ActionSetSLA \<and> Value action \<noteq> []
              \<and> fst (Atoi (Value action ! 0)) = pid \<and> ConvID conversation = cid
              \<and> (UserID user \<noteq> 0 \<or> (\<exists>su. userStore_GetSystemUser env tr = Inr su))"
  proof -
    have "statements_sent (emitted tr (snd (ApplyAction env action conversation user tr)))
      = [q_ApplySLA (ConvID conversation) (fst (Atoi (Value action ! 0))) first resolution]"
      using ApplyAction_set_sla_statement [of action user env tr out bh sla conversation start first resolution]
        s t by blast
    then show ?thesis using t by (simp add: ApplyAction_set_sla_teams)
  qed
  show ?thesis
    using a b c d e f conversation_ApplySLA_teams ApplyAction_set_sla_teams by blast
qed

lemma Atoi_9: "Atoi ''9'' = (9, True)"
  by (simp add: Atoi_def is_digit_def digits_value_def Let_def)

text \<open>
  C10 in the example environment, with a team store whose teams name calendar 2 and a
  conversation assigned to team 8: the set-SLA action hands the engine the team id 0,
  and the deadlines stored are those on calendar 1 of the app settings, ninety minutes
  from the start instant 500 and none for the resolution.
\<close>

theorem C10_witness:
  "Type set_sla_action = ActionSetSLA
   \<and> list_all with_team_zero
        (emitted [] (snd (ApplyAction example_env set_sla_action (example_conversation ''c-1'') agent_ann [])))
   \<and> filter is_team_lookup
        (emitted [] (snd (ApplyAction example_env set_sla_action (example_conversation ''c-1'') agent_ann []))) = []
   \<and> filter is_sla_application
        (emitted [] (snd (ApplyAction example_env set_sla_action (example_conversation ''c-1'') agent_ann [])))
       = [SLAStoreApplySLA 5 0 9]
   \<and> filter is_sla_application
        (emitted [] (snd (conversation_ApplySLA example_env ''c-1'' 5 9 agent_ann []))) = [SLAStoreApplySLA 5 0 9]
   \<and> statements_sent
        (emitted [] (snd (conversation_ApplySLA (example_env\<lparr>teamStore_Get := teamStore_Get half_env\<rparr>)
                            ''c-1'' 5 9 agent_ann [])))
       = [q_ApplySLA 5 9 (500 + 90 * Minute) 0]
   \<and> statements_sent
        (emitted [] (snd (ApplyAction (example_env\<lparr>teamStore_Get := teamStore_Get half_env\<rparr>) set_sla_action
                            ((example_conversation ''c-1'')\<lparr>AssignedTeamID := null_of 8\<rparr>) agent_ann [])))
       = [q_ApplySLA 5 9 (500 + 90 * Minute) 0]"
proof -
  let ?gold = "\<lparr>PolicyName = ''gold'', FirstResponseTime = ''1h30m'', ResolutionTime = ''''\<rparr>"
  have t: "Type set_sla_action = ActionSetSLA" "Value set_sla_action \<noteq> []"
    "fst (Atoi (Value set_sla_action ! 0)) = 9" "ConvID (example_conversation ''c-1'') = 5"
    "UserID agent_ann \<noteq> 0"
    by (simp_all add: set_sla_action_def Atoi_9 example_conversation_def agent_ann_def)
  have e: "filter is_sla_application
        (emitted [] (snd (ApplyAction example_env set_sla_action (example_conversation ''c-1'') agent_ann [])))
       = [SLAStoreApplySLA 5 0 9]"
    by code_simp
  have s: "\<forall>h. appSettingsStore_GetByPrefix example_env h ''app'' = Inr (Object example_settings)"
    "\<forall>h. businessHrsStore_Get example_env h 1 = Inr (example_calendar 1)"
    "\<forall>h. db_GetSLA example_env h 9 = Inr ?gold"
    "\<forall>h. sla_start_time example_env h 5 = 500"
    by (simp_all add: example_env_def)
  have k: "app_default example_settings = (1, ''UTC'')"
    by (simp add: app_default_def example_settings_def as_string_def Atoi_1)
  have d: "calculateDeadline example_env 500 (example_calendar 1) ''UTC'' ''1h30m'' = Inr (500 + 90 * Minute)"
    "calculateDeadline example_env 500 (example_calendar 1) ''UTC'' '''' = Inr 0"
    by code_simp+
  show ?thesis
    using C10_store_applies_sla_with_team_zero
        [where tr = "[]" and env = example_env and uuid = "''c-1''" and cid = 5 and pid = 9
           and actor = agent_ann and teams = "teamStore_Get half_env" and action = set_sla_action
           and conversation = "example_conversation ''c-1''" and user = agent_ann and team = "null_of 8"
           and out = example_settings and bh = "example_calendar 1" and sla = ?gold and start = 500
           and first = "500 + 90 * Minute" and resolution = 0]
      t e s k d
    by (simp add: configured_def conversation_ApplySLA_teams ApplyAction_set_sla_teams)
qed

section \<open>The deadline on an always-open calendar\<close>

text \<open>
  The walk on the example calendar 2 (Monday to Friday, 09:00 to 17:00, UTC): sixty
  minutes from Friday 16:30 end on Monday at 09:30; a calendar without any window fails.
\<close>

lemma walk_example:
  "CalculateDeadline example_env (4 * Day + 16 * 60 * Minute + 30 * Minute) 60 (example_calendar 2) ''UTC''
     = Inr (7 * Day + 9 * 60 * Minute + 30 * Minute)"
  by code_simp

lemma walk_closed:
  "CalculateDeadline example_env 0 90 \<lparr>IsAlwaysOpen = False, Hours = (\<lambda>d. None)\<rparr> ''UTC''
     = Inl (Errorf ''no business hours window found'')"
  by code_simp

text \<open>
  The whole minutes of a duration: a multiple of a minute gives its factor; a fraction
  of a minute is dropped, except where the floating-point sum rounds up to the next
  minute.
\<close>

lemma whole_minutes_exact: "whole_minutes (m * Minute) = m"
proof -
  have p: "0 < Minute" by (simp add: Minute_def)
  have a: "\<bar>m * Minute\<bar> div Minute = \<bar>m\<bar>" "\<bar>m * Minute\<bar> mod Minute = 0"
    using p by (simp_all add: abs_mult)
  have s: "sgn (m * Minute) = sgn m" using p by (simp add: sgn_mult)
  show ?thesis
    by (simp add: whole_minutes_def Minutes_def a s float64_round_def Let_def mult_sgn_abs)
qed

lemma whole_minutes_examples:
  "whole_minutes (90 * Minute + 59999999999) = 90"
  "whole_minutes (- (90 * Minute) - 1) = - 90"
  "whole_minutes (262144 * Minute + 59999999999) = 262145"
  by code_simp+

text \<open>
  C5. On an always-open calendar, for every start instant and every number of minutes
  that is not negative, the deadline is the start plus that many minutes, exactly; 90
  minutes give the start plus 90 minutes. The windows of the calendar, the timezone and
  the environment have no influence, so no walk is made. The closure of
  \<^verbatim>\<open>CalculateDeadlines\<close> hands a parsed duration of m minutes on as m.
\<close>

theorem C5_always_open_deadline:
  assumes "IsAlwaysOpen businessHrs" and "0 \<le> m"
  shows "CalculateDeadline env start m businessHrs timezone = Inr (start + m * Minute)
     \<and> CalculateDeadline env start 90 businessHrs timezone = Inr (start + 90 * Minute)
     \<and> CalculateDeadline env' start m (businessHrs\<lparr>Hours := windows\<rparr>) timezone'
         = CalculateDeadline env start m businessHrs timezone
     \<and> (durationStr \<noteq> '''' \<and> time_ParseDuration env durationStr = Inr (m * Minute) \<longrightarrow>
          calculateDeadline env start businessHrs timezone durationStr = Inr (start + m * Minute))"
  using assms
  by (simp add: CalculateDeadline_def calculateDeadline_def Add_def whole_minutes_exact)

text \<open>C5 on the always-open example calendar 1, from the instant 1000.\<close>

theorem C5_witness:
  "IsAlwaysOpen (example_calendar 1) \<and> (0::int) \<le> 90
   \<and> CalculateDeadline example_env 1000 90 (example_calendar 1) ''UTC'' = Inr (1000 + 90 * Minute)
   \<and> CalculateDeadline example_env 1000 90 (example_calendar 1) ''UTC'' = Inr 5400000001000
   \<and> calculateDeadline example_env 1000 (example_calendar 1) ''UTC'' ''1h30m'' = Inr (1000 + 90 * Minute)"
proof -
  have a: "IsAlwaysOpen (example_calendar 1)" by (simp add: example_calendar_def)
  have p: "time_ParseDuration example_env ''1h30m'' = Inr (90 * Minute)"
    by (simp add: example_env_def)
  show ?thesis
    using C5_always_open_deadline [OF a, of 90 example_env 1000 "''UTC''" example_env "Hours (example_calendar 1)" "''UTC''" "''1h30m''"] a p
    by (simp add: Minute_def)
qed

section \<open>The action executor and the mutators of the conversation store\<close>

lemma ApplyAction_assign_user:
  assumes "Type action = ActionAssignUser" "Value action \<noteq> []"
  shows "ApplyAction env action conversation user0 tr0 =
     bindO
       (if UserID user0 = 0 then
          (case call (userStore_GetSystemUser env) UserStoreGetSystemUser tr0 of
             (Inl err, tr) \<Rightarrow>
               (Inl (Wrapf (''could not apply '' @ Type action @ '' action. could not fetch system user: '')
                      (External err)), tr)
           | (Inr systemUser, tr) \<Rightarrow> (Inr systemUser, tr))
        else (Inr user0, tr0))
     (\<lambda>user tr.
         could_not_apply action
           (UpdateConversationUserAssignee env (UUID conversation) (fst (Atoi (Value action ! 0))) user
              (lo Debug ''executing assign user action''
                 [(''value'', S (Value action ! 0)), (''conversation_uuid'', S (UUID conversation))] tr)))"
  using assms by (simp add: ApplyAction_def action_names)

text \<open>
  C4. The action assign_user with the value "42", applied for an actor with the zero
  identity, where the system user, the conversation, the assignee and the template are
  there and the database and the activity log accept: the action returns no error; its
  effects are, in this order, the statement that sets the assigned user of the
  conversation to 42, the broadcast of that property, one notification handed to the
  notifier, and one activity entry for the assignment attributed to the system user, and
  nothing else, so nothing takes the assignment back; and whatever the notifier answers,
  this is so: when the send fails, the failure is written to the error log (by the
  sender and by the mutator) and nowhere else.
\<close>

theorem C4_assign_user_by_system_actor:
  assumes noactor: "UserID user = 0"
    and sys: "userStore_GetSystemUser env tr = Inr systemUser"
    and db: "\<And>h. db_Exec env h (q_UpdateConversationAssignedUser (UUID conversation) 42) = None"
    and conv: "\<And>h. db_GetConversation env h 0 (UUID conversation) = Inr stored"
    and agent: "\<And>h. userStore_Get env h 42 = Inr assignee"
    and tmpl: "\<And>h. template_RenderNamedTemplate env h TmplConversationAssigned stored assignee
                 = Inr (content, subject)"
    and send: "\<And>h. notifier_Send env h
                 \<lparr>UserIDs = [42], MsgSubject = subject, Content = content, Provider = ProviderEmail\<rparr> = outcome"
    and act: "\<And>h. record_activity env h (UUID conversation) (AssigneeUserChange 42) systemUser = None"
  shows "fst (ApplyAction env assign_user_42 conversation user tr) = None
     \<and> filter is_effect (emitted tr (snd (ApplyAction env assign_user_42 conversation user tr))) =
         [DBExec (q_UpdateConversationAssignedUser (UUID conversation) 42) None,
          Broadcast (UUID conversation) ''assigned_user_id'' (I 42),
          NotifierSend \<lparr>UserIDs = [42], MsgSubject = subject, Content = content, Provider = ProviderEmail\<rparr> outcome,
          RecordActivity (UUID conversation) (AssigneeUserChange 42) systemUser None]
     \<and> error_lines (emitted tr (snd (ApplyAction env assign_user_42 conversation user tr))) =
         (if outcome = None then []
          else [''error sending notification message'', ''error sending assigned conversation email''])"
proof -
  have t: "Type assign_user_42 = ActionAssignUser" "Value assign_user_42 \<noteq> []"
    by (simp_all add: assign_user_42_def)
  show ?thesis
    unfolding ApplyAction_assign_user [OF t]
    by (cases outcome)
       (simp_all add: noactor sys db conv agent tmpl send act assign_user_42_def Atoi_42
          bindO_def call_def lo_def could_not_apply_def UpdateConversationUserAssignee_def
          UpdateAssignee_def AssigneeTypeUser_def AssigneeTypeTeam_def Exec_def Let_def
          BroadcastConversationUpdate_def andThen_def failing_def GetConversation_def
          SendAssignedConversationEmail_def RecordAssigneeUserChange_def record_entry_def
          error_lines_def)
qed

text \<open>C4 in the example environment, whose notifier refuses every message.\<close>

theorem C4_witness:
  "UserID no_actor = 0
   \<and> fst (ApplyAction example_env assign_user_42 (example_conversation ''c-1'') no_actor []) = None
   \<and> filter is_effect (emitted [] (snd (ApplyAction example_env assign_user_42 (example_conversation ''c-1'') no_actor []))) =
         [DBExec (q_UpdateConversationAssignedUser ''c-1'' 42) None,
          Broadcast ''c-1'' ''assigned_user_id'' (I 42),
          NotifierSend \<lparr>UserIDs = [42], MsgSubject = ''Assigned'', Content = ''You have been assigned'',
                         Provider = ProviderEmail\<rparr> (Some (ErrOther ''smtp: connection refused'')),
          RecordActivity ''c-1'' (AssigneeUserChange 42) \<lparr>UserID = 1, FullName = ''System''\<rparr> None]
   \<and> error_lines (emitted [] (snd (ApplyAction example_env assign_user_42 (example_conversation ''c-1'') no_actor []))) =
         [''error sending notification message'', ''error sending assigned conversation email'']"
proof -
  have noactor: "UserID no_actor = 0" by (simp add: no_actor_def)
  have sys: "userStore_GetSystemUser example_env [] = Inr \<lparr>UserID = 1, FullName = ''System''\<rparr>"
    by (simp add: example_env_def)
  have db: "\<And>h. db_Exec example_env h (q_UpdateConversationAssignedUser (UUID (example_conversation ''c-1'')) 42) = None"
    by (simp add: example_env_def)
  have conv: "\<And>h. db_GetConversation example_env h 0 (UUID (example_conversation ''c-1''))
      = Inr (example_conversation ''c-1'')"
    by (simp add: example_env_def example_conversation_def)
  have agent: "\<And>h. userStore_Get example_env h 42 = Inr \<lparr>UserID = 42, FullName = ''Agent''\<rparr>"
    by (simp add: example_env_def)
  have tmpl: "\<And>h. template_RenderNamedTemplate example_env h TmplConversationAssigned
      (example_conversation ''c-1'') \<lparr>UserID = 42, FullName = ''Agent''\<rparr>
      = Inr (''You have been assigned'', ''Assigned'')"
    by (simp add: example_env_def)
  have send: "\<And>h. notifier_Send example_env h
      \<lparr>UserIDs = [42], MsgSubject = ''Assigned'', Content = ''You have been assigned'', Provider = ProviderEmail\<rparr>
      = Some (ErrOther ''smtp: connection refused'')"
    by (simp add: example_env_def)
  have act: "\<And>h. record_activity example_env h (UUID (example_conversation ''c-1''))
      (AssigneeUserChange 42) \<lparr>UserID = 1, FullName = ''System''\<rparr> = None"
    by (simp add: example_env_def)
  show ?thesis
    using C4_assign_user_by_system_actor [OF noactor sys db conv agent tmpl send act] noactor
    by (simp add: example_conversation_def)
qed

lemma sublist_mid: "sublist xs (ps @ xs @ ss)"
  by (auto simp: sublist_def)

lemma sublist_end: "sublist xs (ps @ xs)"
  using sublist_mid [of xs ps "[]"] by simp

text \<open>
  C8. When the value list of the action is empty, or its type is none of the eight known
  types, \<^verbatim>\<open>ApplyAction\<close> returns an error whose message contains the action type, and
  the run has no effect: no statement, broadcast, activity entry, notification, note,
  reply or SLA application.
\<close>

theorem C8_rejected_action_changes_nothing:
  "(Value action = [] \<or> Type action \<notin> set known_actions) \<longrightarrow>
     (\<exists>err. fst (ApplyAction env action conversation user tr) = Some err \<and> sublist (Type action) (Error err))
     \<and> filter is_effect (emitted tr (snd (ApplyAction env action conversation user tr))) = []"
proof (intro impI)
  assume a: "Value action = [] \<or> Type action \<notin> set known_actions"
  show "(\<exists>err. fst (ApplyAction env action conversation user tr) = Some err \<and> sublist (Type action) (Error err))
     \<and> filter is_effect (emitted tr (snd (ApplyAction env action conversation user tr))) = []"
  proof (cases "Value action = []")
    case True
    then show ?thesis
      using sublist_end [of "Type action" "''no value provided for action ''"]
      by (simp add: ApplyAction_def lo_def)
  next
    case False
    with a have u: "Type action \<notin> set known_actions" by simp
    have unknown: "ApplyAction env action conversation user tr =
      bindO
       (if UserID user = 0 then
          (case call (userStore_GetSystemUser env) UserStoreGetSystemUser tr of
             (Inl err, tr) \<Rightarrow>
               (Inl (Wrapf (''could not apply '' @ Type action @ '' action. could not fetch system user: '')
                      (External err)), tr)
           | (Inr systemUser, tr) \<Rightarrow> (Inr systemUser, tr))
        else (Inr user, tr))
       (\<lambda>user tr. (Some (Errorf (''unrecognized action type '' @ Type action)), tr))"
      using False u by (simp add: ApplyAction_def known_actions_def)
    show ?thesis
    proof (cases "UserID user = 0")
      case nouser: True
      show ?thesis
      proof (cases "userStore_GetSystemUser env tr")
        case (Inl err)
        then show ?thesis
          using nouser sublist_mid [of "Type action" "''could not apply ''"
              "'' action. could not fetch system user: '' @ xerr_text err"]
          by (simp add: unknown bindO_def call_def)
      next
        case (Inr su)
        then show ?thesis
          using nouser sublist_end [of "Type action" "''unrecognized action type ''"]
          by (simp add: unknown bindO_def call_def)
      qed
    next
      case False
      then show ?thesis
        using sublist_end [of "Type action" "''unrecognized action type ''"]
        by (simp add: unknown bindO_def)
    qed
  qed
qed

text \<open>C8 on an action without a value and on an action of an unknown type.\<close>

theorem C8_witness:
  "Value empty_action = [] \<and> Type unknown_action \<notin> set known_actions
   \<and> fst (ApplyAction example_env empty_action (example_conversation ''c-1'') no_actor [])
       = Some (Errorf ''no value provided for action set_tags'')
   \<and> fst (ApplyAction example_env unknown_action (example_conversation ''c-1'') no_actor [])
       = Some (Errorf ''unrecognized action type escalate'')
   \<and> filter is_effect (emitted [] (snd (ApplyAction example_env empty_action (example_conversation ''c-1'') no_actor []))) = []
   \<and> filter is_effect (emitted [] (snd (ApplyAction example_env unknown_action (example_conversation ''c-1'') no_actor []))) = []"
proof -
  have a: "Value empty_action = []" by (simp add: empty_action_def)
  have b: "Type unknown_action \<notin> set known_actions"
    by (simp add: unknown_action_def known_actions_def action_names)
  have c: "fst (ApplyAction example_env empty_action (example_conversation ''c-1'') no_actor [])
       = Some (Errorf ''no value provided for action set_tags'')"
    by code_simp
  have d: "fst (ApplyAction example_env unknown_action (example_conversation ''c-1'') no_actor [])
       = Some (Errorf ''unrecognized action type escalate'')"
    by code_simp
  show ?thesis
    using C8_rejected_action_changes_nothing [of empty_action example_env "example_conversation ''c-1''" no_actor "[]"]
      C8_rejected_action_changes_nothing [of unknown_action example_env "example_conversation ''c-1''" no_actor "[]"]
      a b c d
    by simp
qed

lemmas status_defs = UpdateConversationStatus_def bindO_def call_def lo_def Now_def Exec_def Let_def
  andThen_def failing_def RecordStatusChange_def record_entry_def BroadcastConversationUpdate_def
  statements_sent_def Add_def

text \<open>
  C7. \<open>status\<close> is the status the call resolves to: the name the status store gives
  for a status id above 0, and the status passed otherwise; the clock reads \<open>now\<close>.
  For the status snoozed with an empty duration the call returns the input error and has
  no effect. For the status snoozed with a duration that parses to d, the one statement
  sent is the status update with snooze-until now + d. For any other status the one
  statement sent is the status update with the zero instant as snooze-until, which is no
  pending snooze. When the database and the activity log accept, these calls return
  no error.
\<close>

theorem C7_snooze_until:
  assumes resolved: "0 < statusID \<Longrightarrow> statusStore_Get env tr statusID = Inr status"
    and given: "statusID \<le> 0 \<Longrightarrow> status0 = status"
    and clock: "\<And>h. time_Now env h = now"
  shows "(status = StatusSnoozed \<and> snoozeDur = '''' \<longrightarrow>
           fst (UpdateConversationStatus env uuid statusID status0 snoozeDur actor tr)
             = Some (EnvelopeError InputError ''Snooze duration is required'')
           \<and> filter is_effect
               (emitted tr (snd (UpdateConversationStatus env uuid statusID status0 snoozeDur actor tr))) = [])
     \<and> (status = StatusSnoozed \<and> snoozeDur \<noteq> '''' \<and> time_ParseDuration env snoozeDur = Inr d \<longrightarrow>
           statements_sent
             (emitted tr (snd (UpdateConversationStatus env uuid statusID status0 snoozeDur actor tr)))
             = [q_UpdateConversationStatus uuid status (now + d)])
     \<and> (status \<noteq> StatusSnoozed \<longrightarrow>
           statements_sent
             (emitted tr (snd (UpdateConversationStatus env uuid statusID status0 snoozeDur actor tr)))
             = [q_UpdateConversationStatus uuid status zero_time])
     \<and> ((\<forall>h s. db_Exec env h s = None) \<and> (\<forall>h a. record_activity env h uuid a actor = None)
         \<and> (status = StatusSnoozed \<longrightarrow> snoozeDur \<noteq> '''' \<and> (\<exists>d. time_ParseDuration env snoozeDur = Inr d)) \<longrightarrow>
           fst (UpdateConversationStatus env uuid statusID status0 snoozeDur actor tr) = None)"
proof (cases "0 < statusID")
  case True
  let ?h = "tr @ [StatusStoreGet statusID]"
  have r: "statusStore_Get env tr statusID = Inr status" using resolved True by simp
  show ?thesis
  proof (cases "status = StatusSnoozed")
    case snoozed: True
    show ?thesis
    proof (cases "snoozeDur = ''''")
      case True
      then show ?thesis using snoozed \<open>0 < statusID\<close> r by (simp add: status_defs)
    next
      case False
      then show ?thesis using snoozed \<open>0 < statusID\<close> r clock
        by (auto simp: status_defs split: option.splits sum.splits)
    qed
  next
    case False
    then show ?thesis using \<open>0 < statusID\<close> r
      by (auto simp: status_defs split: option.splits)
  qed
next
  case False
  then have g: "status0 = status" using given by simp
  show ?thesis
  proof (cases "status = StatusSnoozed")
    case snoozed: True
    show ?thesis
    proof (cases "snoozeDur = ''''")
      case True
      then show ?thesis using snoozed \<open>\<not> 0 < statusID\<close> g by (simp add: status_defs)
    next
      case False
      then show ?thesis using snoozed \<open>\<not> 0 < statusID\<close> g clock
        by (auto simp: status_defs split: option.splits sum.splits)
    qed
  next
    case False
    then show ?thesis using \<open>\<not> 0 < statusID\<close> g
      by (auto simp: status_defs split: option.splits)
  qed
qed

text \<open>
  C7 in the example environment, where status 2 is snoozed and the clock reads 1000:
  no duration, the duration "2h", and the status open.
\<close>

theorem C7_witness:
  "statusStore_Get example_env [] 2 = Inr StatusSnoozed \<and> (\<forall>h. time_Now example_env h = 1000)
   \<and> time_ParseDuration example_env ''2h'' = Inr (120 * Minute)
   \<and> fst (UpdateConversationStatus example_env ''c-1'' 2 '''' '''' no_actor [])
        = Some (EnvelopeError InputError ''Snooze duration is required'')
   \<and> filter is_effect (emitted [] (snd (UpdateConversationStatus example_env ''c-1'' 2 '''' '''' no_actor []))) = []
   \<and> statements_sent (emitted [] (snd (UpdateConversationStatus example_env ''c-1'' 2 '''' ''2h'' no_actor [])))
        = [q_UpdateConversationStatus ''c-1'' StatusSnoozed (1000 + 120 * Minute)]
   \<and> fst (UpdateConversationStatus example_env ''c-1'' 2 '''' ''2h'' no_actor []) = None
   \<and> statements_sent (emitted [] (snd (UpdateConversationStatus example_env ''c-1'' 0 ''open'' '''' no_actor [])))
        = [q_UpdateConversationStatus ''c-1'' ''open'' zero_time]"
proof -
  have r: "0 < (2::int) \<Longrightarrow> statusStore_Get example_env [] 2 = Inr StatusSnoozed"
    by (simp add: example_env_def StatusSnoozed_def)
  have g: "(2::int) \<le> 0 \<Longrightarrow> '''' = StatusSnoozed" by simp
  have clock: "\<And>h. time_Now example_env h = 1000" by (simp add: example_env_def)
  have p: "time_ParseDuration example_env ''2h'' = Inr (120 * Minute)" by (simp add: example_env_def)
  have ok: "(\<forall>h s. db_Exec example_env h s = None)" "(\<forall>h a. record_activity example_env h ''c-1'' a no_actor = None)"
    by (simp_all add: example_env_def)
  have r0: "0 < (0::int) \<Longrightarrow> statusStore_Get example_env [] 0 = Inr ''open''" by simp
  have g0: "(0::int) \<le> 0 \<Longrightarrow> ''open'' = ''open''" by simp
  have o: "''open'' \<noteq> StatusSnoozed" by (simp add: StatusSnoozed_def)
  show ?thesis
    using C7_snooze_until [OF r g clock, of "''''" "''c-1''" no_actor "120 * Minute"]
      C7_snooze_until [OF r g clock, of "''2h''" "''c-1''" no_actor "120 * Minute"]
      C7_snooze_until [OF r0 g0 clock, where uuid = "''c-1''" and snoozeDur = "''''"
          and actor = no_actor and d = 0]
      r clock p ok o
    by auto
qed

section \<open>The conversations list\<close>

lemma make_rejects:
  assumes "100 < pageSize \<or> pageSize < 1 \<or> page < 1"
  shows "makeConversationsListQuery env userID teamIDs listTypes base order orderBy page pageSize filters
      = Inl (if 100 < pageSize \<or> pageSize < 1 then page_size_error else page_error)"
  using assms
  by (auto simp: makeConversationsListQuery_def conversationsListMaxPageSize_def Let_def
      page_size_error_def page_error_def)

lemma make_accepts:
  assumes "1 \<le> pageSize" "pageSize \<le> 100" "1 \<le> page"
  shows "makeConversationsListQuery env userID teamIDs listTypes base order orderBy page pageSize filters
      = after_page_checks env userID teamIDs listTypes base order orderBy page pageSize filters"
  using assms
  by (simp add: makeConversationsListQuery_def after_page_checks_def conversationsListMaxPageSize_def
      Let_def default_options_def cong: sum.case_cong prod.case_cong if_cong)

lemma queries_of_list:
  assumes "makeConversationsListQuery env userID teamIDs listTypes (q_GetConversations env)
           order orderBy page pageSize filters = Inr (query, qArgs)" "db_BeginTx env tr = None"
  shows "filter is_db
           (emitted tr (snd (GetConversations env userID teamIDs listTypes order orderBy filters page pageSize tr)))
          = [DBBeginTx, DBSelect query qArgs, DBRollback]"
  using assms
  by (cases "db_Select env (tr @ [DBBeginTx]) query qArgs")
     (simp_all add: GetConversations_def call_def lo_def)

lemma all_list_conditions: "list_conditions 0 [] [AllConversations] [] [] = Inr ([], [])"
  by (simp add: AllConversations_def AssignedConversations_def UnassignedConversations_def
      TeamUnassignedConversations_def)

lemma all_list_query:
  assumes "1 \<le> pageSize" "pageSize \<le> 100" "1 \<le> page"
    "dbutil_BuildPaginatedQuery env (fmt_Sprintf env base '''') []
            (default_options order orderBy page pageSize) (if filters = '''' then ''[]'' else filters)
            = Inr (query, qArgs)"
  shows "makeConversationsListQuery env 0 [] [AllConversations] base
           order orderBy page pageSize filters = Inr (query, qArgs)"
  using assms(4)
  by (simp add: make_accepts [OF assms(1-3)] after_page_checks_def all_list_conditions
      del: list_conditions.simps)

text \<open>
  C9. A page size above 100 or below 1, or a page below 1, makes
  \<^verbatim>\<open>makeConversationsListQuery\<close> return its page-size or page error, and
  \<^verbatim>\<open>GetConversations\<close> return an error having had no exchange with the database. A
  page size from 1 to 100 with a page of at least 1 passes both checks: the function
  goes on to the list types and the query builder. Whenever the query is made and the
  transaction begins, the query is run; for the list of all conversations this is the
  case as soon as the query builder accepts the filters.
\<close>

theorem C9_page_bounds_checked_before_query:
  "((100 < pageSize \<or> pageSize < 1 \<or> page < 1) \<longrightarrow>
       makeConversationsListQuery env userID teamIDs listTypes (q_GetConversations env)
           order orderBy page pageSize filters
         = Inl (if 100 < pageSize \<or> pageSize < 1 then page_size_error else page_error)
       \<and> (\<exists>err. fst (GetConversations env userID teamIDs listTypes order orderBy filters page pageSize tr)
             = Inl err)
       \<and> filter is_db
           (emitted tr (snd (GetConversations env userID teamIDs listTypes order orderBy filters page pageSize tr)))
          = [])
   \<and> (1 \<le> pageSize \<and> pageSize \<le> 100 \<and> 1 \<le> page \<longrightarrow>
       makeConversationsListQuery env userID teamIDs listTypes (q_GetConversations env)
           order orderBy page pageSize filters
         = after_page_checks env userID teamIDs listTypes (q_GetConversations env)
             order orderBy page pageSize filters)
   \<and> (makeConversationsListQuery env userID teamIDs listTypes (q_GetConversations env)
           order orderBy page pageSize filters = Inr (query, qArgs)
       \<and> db_BeginTx env tr = None \<longrightarrow>
       filter is_db
           (emitted tr (snd (GetConversations env userID teamIDs listTypes order orderBy filters page pageSize tr)))
          = [DBBeginTx, DBSelect query qArgs, DBRollback])
   \<and> (1 \<le> pageSize \<and> pageSize \<le> 100 \<and> 1 \<le> page
       \<and> dbutil_BuildPaginatedQuery env (fmt_Sprintf env (q_GetConversations env) '''') []
            (default_options order orderBy page pageSize) (if filters = '''' then ''[]'' else filters)
            = Inr (query, qArgs)
       \<and> db_BeginTx env tr = None \<longrightarrow>
       filter is_db
           (emitted tr (snd (GetAllConversationsList env order orderBy filters page pageSize tr)))
          = [DBBeginTx, DBSelect query qArgs, DBRollback])"
proof (intro conjI impI)
  assume bad: "100 < pageSize \<or> pageSize < 1 \<or> page < 1"
  show m: "makeConversationsListQuery env userID teamIDs listTypes (q_GetConversations env)
           order orderBy page pageSize filters
         = Inl (if 100 < pageSize \<or> pageSize < 1 then page_size_error else page_error)"
    by (rule make_rejects [OF bad])
  show "\<exists>err. fst (GetConversations env userID teamIDs listTypes order orderBy filters page pageSize tr)
             = Inl err"
    unfolding GetConversations_def m by simp
  show "filter is_db
           (emitted tr (snd (GetConversations env userID teamIDs listTypes order orderBy filters page pageSize tr)))
          = []"
    unfolding GetConversations_def m by (simp add: lo_def)
next
  assume "1 \<le> pageSize \<and> pageSize \<le> 100 \<and> 1 \<le> page"
  then show "makeConversationsListQuery env userID teamIDs listTypes (q_GetConversations env)
           order orderBy page pageSize filters
         = after_page_checks env userID teamIDs listTypes (q_GetConversations env)
             order orderBy page pageSize filters"
    using make_accepts by blast
next
  assume "makeConversationsListQuery env userID teamIDs listTypes (q_GetConversations env)
           order orderBy page pageSize filters = Inr (query, qArgs) \<and> db_BeginTx env tr = None"
  then show "filter is_db
           (emitted tr (snd (GetConversations env userID teamIDs listTypes order orderBy filters page pageSize tr)))
          = [DBBeginTx, DBSelect query qArgs, DBRollback]"
    using queries_of_list by blast
next
  assume a: "1 \<le> pageSize \<and> pageSize \<le> 100 \<and> 1 \<le> page
       \<and> dbutil_BuildPaginatedQuery env (fmt_Sprintf env (q_GetConversations env) '''') []
            (default_options order orderBy page pageSize) (if filters = '''' then ''[]'' else filters)
            = Inr (query, qArgs)
       \<and> db_BeginTx env tr = None"
  then have "makeConversationsListQuery env 0 [] [AllConversations] (q_GetConversations env)
           order orderBy page pageSize filters = Inr (query, qArgs)"
    using all_list_query by blast
  with a show "filter is_db
           (emitted tr (snd (GetAllConversationsList env order orderBy filters page pageSize tr)))
          = [DBBeginTx, DBSelect query qArgs, DBRollback]"
    unfolding GetAllConversationsList_def using queries_of_list by blast
qed

text \<open>
  C9 in the example environment: page size 101 and page 0 are rejected without any
  exchange with the database, and page 1 of size 25 runs the query.
\<close>

theorem C9_witness:
  "(100::int) < 101 \<and> (1::int) \<le> 25 \<and> (25::int) \<le> 100 \<and> (1::int) \<le> 1
   \<and> fst (GetAllConversationsList example_env '''' '''' '''' 1 101 [])
       = Inl (EnvelopeError GeneralError ''globals.messages.errorFetching'')
   \<and> filter is_db (emitted [] (snd (GetConversations example_env 0 [] [AllConversations] '''' '''' '''' 1 101 []))) = []
   \<and> filter is_db (emitted [] (snd (GetConversations example_env 0 [] [AllConversations] '''' '''' '''' 0 25 []))) = []
   \<and> filter is_db (emitted [] (snd (GetAllConversationsList example_env '''' '''' '''' 1 25 [])))
       = [DBBeginTx, DBSelect ''SELECT * FROM conversations WHERE 1=1 '' [], DBRollback]"
proof -
  have e: "fst (GetAllConversationsList example_env '''' '''' '''' 1 101 [])
       = Inl (EnvelopeError GeneralError ''globals.messages.errorFetching'')"
    by (simp add: GetAllConversationsList_def GetConversations_def make_rejects example_env_def)
  have b: "dbutil_BuildPaginatedQuery example_env
            (fmt_Sprintf example_env (q_GetConversations example_env) '''') []
            (default_options '''' '''' 1 25) (if '''' = '''' then ''[]'' else '''')
            = Inr (''SELECT * FROM conversations WHERE 1=1 '', [])"
    by (simp add: example_env_def)
  have t: "db_BeginTx example_env [] = None" by (simp add: example_env_def)
  show ?thesis
    using C9_page_bounds_checked_before_query
        [where pageSize = 101 and page = 1 and env = example_env and userID = 0 and teamIDs = "[]"
           and listTypes = "[AllConversations]" and order = "''''" and orderBy = "''''"
           and filters = "''''" and tr = "[]"]
      C9_page_bounds_checked_before_query
        [where pageSize = 25 and page = 0 and env = example_env and userID = 0 and teamIDs = "[]"
           and listTypes = "[AllConversations]" and order = "''''" and orderBy = "''''"
           and filters = "''''" and tr = "[]"]
      C9_page_bounds_checked_before_query
        [where pageSize = 25 and page = 1 and env = example_env and userID = 0 and teamIDs = "[]"
           and listTypes = "[AllConversations]" and order = "''''" and orderBy = "''''"
           and filters = "''''" and tr = "[]"
           and query = "''SELECT * FROM conversations WHERE 1=1 ''" and qArgs = "[]"]
      e b t
    by simp
qed

end
